theory Spec2Isabelle
  imports Main "HOL-Library.Word"
begin

unbundle bit_operations_syntax

section \<open>The data types of midi.h\<close>

text \<open>
  The C integer types are words of the same width. The three enumerations
  \<^verbatim>\<open>midi_channel_t\<close>, \<^verbatim>\<open>midi_message_type_t\<close> and \<^verbatim>\<open>midi_controller_t\<close> are C
  enums: integers with named values, to which the parser casts masked bytes. They are
  modelled as 32-bit words (the width of \<^verbatim>\<open>int\<close>), every enumerator as a
  name for its value, so that a parser struct holding a value that is no enumerator
  is a state of the model too and takes the \<^verbatim>\<open>default\<close> branch of a switch, as
  in C. All enumerators are below 256, so nothing depends on the exact width.
\<close>

type_synonym uint8_t = "8 word"
type_synonym uint16_t = "16 word"
type_synonym c_int = "32 word"
type_synonym midi_channel_t = "32 word"
type_synonym midi_message_type_t = "32 word"
type_synonym midi_controller_t = "32 word"

subsection \<open>Private defines of midi.c\<close>

abbreviation (input) MIDI_MSN_MASK :: uint8_t where "MIDI_MSN_MASK \<equiv> 0xF0"
abbreviation (input) MIDI_LSN_MASK :: uint8_t where "MIDI_LSN_MASK \<equiv> 0x0F"
abbreviation (input) MIDI_CHANNEL_MASK :: uint8_t where "MIDI_CHANNEL_MASK \<equiv> 0x0F"
abbreviation (input) MIDI_MSB_MASK :: uint8_t where "MIDI_MSB_MASK \<equiv> 0x80"
abbreviation (input) MIDI_BUFFER_SIZE :: uint8_t where "MIDI_BUFFER_SIZE \<equiv> 2"
abbreviation (input) MIDI_MAX_DATA_BYTE :: uint8_t where "MIDI_MAX_DATA_BYTE \<equiv> 0x7F"

subsection \<open>Enumerators\<close>

abbreviation (input) MIDI_CHANNEL_NONE :: midi_channel_t where "MIDI_CHANNEL_NONE \<equiv> 0xFF"

abbreviation (input) MIDI_MESSAGE_NONE :: midi_message_type_t
  where "MIDI_MESSAGE_NONE \<equiv> 0x00"
abbreviation (input) MIDI_MESSAGE_NOTE_OFF :: midi_message_type_t
  where "MIDI_MESSAGE_NOTE_OFF \<equiv> 0x80"
abbreviation (input) MIDI_MESSAGE_NOTE_ON :: midi_message_type_t
  where "MIDI_MESSAGE_NOTE_ON \<equiv> 0x90"
abbreviation (input) MIDI_MESSAGE_KEY_PRESSURE :: midi_message_type_t
  where "MIDI_MESSAGE_KEY_PRESSURE \<equiv> 0xA0"
abbreviation (input) MIDI_MESSAGE_CONTROL_CHANGE :: midi_message_type_t
  where "MIDI_MESSAGE_CONTROL_CHANGE \<equiv> 0xB0"
abbreviation (input) MIDI_MESSAGE_ALL_SOUND_OFF :: midi_message_type_t
  where "MIDI_MESSAGE_ALL_SOUND_OFF \<equiv> 0x78"
abbreviation (input) MIDI_MESSAGE_RESET_ALL_CONTROLLERS :: midi_message_type_t
  where "MIDI_MESSAGE_RESET_ALL_CONTROLLERS \<equiv> 0x79"
abbreviation (input) MIDI_MESSAGE_LOCAL_CONTROL :: midi_message_type_t
  where "MIDI_MESSAGE_LOCAL_CONTROL \<equiv> 0x7A"
abbreviation (input) MIDI_MESSAGE_ALL_NOTES_OFF :: midi_message_type_t
  where "MIDI_MESSAGE_ALL_NOTES_OFF \<equiv> 0x7B"
abbreviation (input) MIDI_MESSAGE_OMNI_OFF :: midi_message_type_t
  where "MIDI_MESSAGE_OMNI_OFF \<equiv> 0x7C"
abbreviation (input) MIDI_MESSAGE_OMNI_ON :: midi_message_type_t
  where "MIDI_MESSAGE_OMNI_ON \<equiv> 0x7D"
abbreviation (input) MIDI_MESSAGE_MONO_ON :: midi_message_type_t
  where "MIDI_MESSAGE_MONO_ON \<equiv> 0x7E"
abbreviation (input) MIDI_MESSAGE_POLY_ON :: midi_message_type_t
  where "MIDI_MESSAGE_POLY_ON \<equiv> 0x7F"
abbreviation (input) MIDI_MESSAGE_PROGRAM_CHANGE :: midi_message_type_t
  where "MIDI_MESSAGE_PROGRAM_CHANGE \<equiv> 0xC0"
abbreviation (input) MIDI_MESSAGE_CHANNEL_PRESSURE :: midi_message_type_t
  where "MIDI_MESSAGE_CHANNEL_PRESSURE \<equiv> 0xD0"
abbreviation (input) MIDI_MESSAGE_PITCH_BEND :: midi_message_type_t
  where "MIDI_MESSAGE_PITCH_BEND \<equiv> 0xE0"
abbreviation (input) MIDI_MESSAGE_SYSTEM_EXCLUSIVE :: midi_message_type_t
  where "MIDI_MESSAGE_SYSTEM_EXCLUSIVE \<equiv> 0xF0"
abbreviation (input) MIDI_MESSAGE_MTC_QUARTER_FRAME :: midi_message_type_t
  where "MIDI_MESSAGE_MTC_QUARTER_FRAME \<equiv> 0xF1"
abbreviation (input) MIDI_MESSAGE_SONG_POSITION_POINTER :: midi_message_type_t
  where "MIDI_MESSAGE_SONG_POSITION_POINTER \<equiv> 0xF2"
abbreviation (input) MIDI_MESSAGE_SONG_SELECT :: midi_message_type_t
  where "MIDI_MESSAGE_SONG_SELECT \<equiv> 0xF3"
abbreviation (input) MIDI_MESSAGE_TUNE_REQUEST :: midi_message_type_t
  where "MIDI_MESSAGE_TUNE_REQUEST \<equiv> 0xF6"
abbreviation (input) MIDI_MESSAGE_END_OF_EXCLUSIVE :: midi_message_type_t
  where "MIDI_MESSAGE_END_OF_EXCLUSIVE \<equiv> 0xF7"
abbreviation (input) MIDI_MESSAGE_TIMING_CLOCK :: midi_message_type_t
  where "MIDI_MESSAGE_TIMING_CLOCK \<equiv> 0xF8"
abbreviation (input) MIDI_MESSAGE_START :: midi_message_type_t
  where "MIDI_MESSAGE_START \<equiv> 0xFA"
abbreviation (input) MIDI_MESSAGE_CONTINUE :: midi_message_type_t
  where "MIDI_MESSAGE_CONTINUE \<equiv> 0xFB"
abbreviation (input) MIDI_MESSAGE_STOP :: midi_message_type_t
  where "MIDI_MESSAGE_STOP \<equiv> 0xFC"
abbreviation (input) MIDI_MESSAGE_ACTIVE_SENSE :: midi_message_type_t
  where "MIDI_MESSAGE_ACTIVE_SENSE \<equiv> 0xFE"
abbreviation (input) MIDI_MESSAGE_SYSTEM_RESET :: midi_message_type_t
  where "MIDI_MESSAGE_SYSTEM_RESET \<equiv> 0xFF"

abbreviation (input) MIDI_CC_ALL_SOUND_OFF :: midi_controller_t
  where "MIDI_CC_ALL_SOUND_OFF \<equiv> 0x78"
abbreviation (input) MIDI_CC_RESET_ALL_CONTROLLERS :: midi_controller_t
  where "MIDI_CC_RESET_ALL_CONTROLLERS \<equiv> 0x79"
abbreviation (input) MIDI_CC_LOCAL_CONTROL :: midi_controller_t
  where "MIDI_CC_LOCAL_CONTROL \<equiv> 0x7A"
abbreviation (input) MIDI_CC_ALL_NOTES_OFF :: midi_controller_t
  where "MIDI_CC_ALL_NOTES_OFF \<equiv> 0x7B"
abbreviation (input) MIDI_CC_OMNI_OFF :: midi_controller_t
  where "MIDI_CC_OMNI_OFF \<equiv> 0x7C"
abbreviation (input) MIDI_CC_OMNI_ON :: midi_controller_t
  where "MIDI_CC_OMNI_ON \<equiv> 0x7D"
abbreviation (input) MIDI_CC_MONO_ON :: midi_controller_t
  where "MIDI_CC_MONO_ON \<equiv> 0x7E"
abbreviation (input) MIDI_CC_POLY_ON :: midi_controller_t
  where "MIDI_CC_POLY_ON \<equiv> 0x7F"

subsection \<open>The message and the parser\<close>

text \<open>
  \<^verbatim>\<open>midi_message_t\<close>: the message type, the channel and an anonymous union of the
  payloads. The record has one field for every member of the union. The parser only
  ever writes the members of one payload and reads back, in the same call, what it
  has just written there, so no result below depends on how the members of the
  union overlap in memory. The two fields whose names the parser struct has as well
  carry the prefix \<open>msg_\<close>; \<^verbatim>\<open>note\<close>, a keyword of Isabelle, is \<open>note_number\<close>.
\<close>

record midi_message_t =
  msg_message_type :: midi_message_type_t
  msg_channel :: midi_channel_t
  note_number :: uint8_t
  velocity :: uint8_t
  key :: uint8_t
  key_pressure :: uint8_t
  controller :: midi_controller_t
  control_value :: uint8_t
  program :: uint8_t
  channel_pressure :: uint8_t
  pitch_bend :: uint16_t
  song_position :: uint16_t
  song_select :: uint8_t
  mtc_msg_type :: uint8_t
  mtc_values :: uint8_t

text \<open>
  \<^verbatim>\<open>midi_parser_t\<close>. The array \<^verbatim>\<open>uint8_t buffer[2]\<close> is the two fields
  \<open>buffer_0\<close> and \<open>buffer_1\<close>.
\<close>

record midi_parser_t =
  message_type :: midi_message_type_t
  channel :: midi_channel_t
  active_channel :: midi_channel_t
  buffer_0 :: uint8_t
  buffer_1 :: uint8_t
  byte_count :: uint8_t

section \<open>The functions of midi.c\<close>

text \<open>
  The structs are passed by value and returned updated: the model is of the calls
  in which both pointers are valid. (With a \<^verbatim>\<open>NULL\<close> pointer every function of
  midi.c returns at once, \<^verbatim>\<open>MIDI_MESSAGE_NONE\<close> where it returns a value, and
  touches nothing.)
\<close>

definition midi_parser_init :: "midi_parser_t \<Rightarrow> midi_parser_t" where
  "midi_parser_init parser =
     parser\<lparr>message_type := MIDI_MESSAGE_NONE,
            channel := MIDI_CHANNEL_NONE,
            active_channel := MIDI_CHANNEL_NONE,
            buffer_0 := 0,
            buffer_1 := 0,
            byte_count := 0\<rparr>"

definition midi_parser_reset :: "midi_parser_t \<Rightarrow> midi_parser_t" where
  "midi_parser_reset parser = midi_parser_init parser"

text \<open>
  The result of a parse step: the returned message type, the parser and the
  message after the call.
\<close>

type_synonym parse_result = "midi_message_type_t \<times> midi_parser_t \<times> midi_message_t"

definition parse_status_byte ::
  "midi_parser_t \<Rightarrow> uint8_t \<Rightarrow> midi_message_t \<Rightarrow> parse_result" where
  "parse_status_byte parser byte message =
     (let msn = (ucast (byte AND MIDI_MSN_MASK) :: midi_message_type_t) in
      if msn = MIDI_MESSAGE_NOTE_OFF \<or> msn = MIDI_MESSAGE_NOTE_ON
         \<or> msn = MIDI_MESSAGE_KEY_PRESSURE \<or> msn = MIDI_MESSAGE_CONTROL_CHANGE
         \<or> msn = MIDI_MESSAGE_PROGRAM_CHANGE \<or> msn = MIDI_MESSAGE_CHANNEL_PRESSURE
         \<or> msn = MIDI_MESSAGE_PITCH_BEND
      then (MIDI_MESSAGE_NONE,
            parser\<lparr>message_type := msn,
                   channel := ucast (byte AND MIDI_CHANNEL_MASK),
                   byte_count := 0\<rparr>,
            message)
      else if msn = MIDI_MESSAGE_SYSTEM_EXCLUSIVE
      then (let full = (ucast byte :: midi_message_type_t) in
        if full = MIDI_MESSAGE_SYSTEM_EXCLUSIVE
        then (MIDI_MESSAGE_SYSTEM_EXCLUSIVE,
              parser\<lparr>message_type := MIDI_MESSAGE_SYSTEM_EXCLUSIVE, byte_count := 0\<rparr>,
              message\<lparr>msg_message_type := MIDI_MESSAGE_SYSTEM_EXCLUSIVE,
                      msg_channel := MIDI_CHANNEL_NONE\<rparr>)
        else if full = MIDI_MESSAGE_MTC_QUARTER_FRAME
                \<or> full = MIDI_MESSAGE_SONG_POSITION_POINTER
                \<or> full = MIDI_MESSAGE_SONG_SELECT
        then (MIDI_MESSAGE_NONE,
              parser\<lparr>message_type := full,
                     channel := MIDI_CHANNEL_NONE,
                     byte_count := 0\<rparr>,
              message)
        else if full = MIDI_MESSAGE_TUNE_REQUEST \<or> full = MIDI_MESSAGE_END_OF_EXCLUSIVE
        then (full,
              parser\<lparr>message_type := MIDI_MESSAGE_NONE,
                     channel := MIDI_CHANNEL_NONE,
                     byte_count := 0\<rparr>,
              message\<lparr>msg_message_type := full, msg_channel := MIDI_CHANNEL_NONE\<rparr>)
        else if full = MIDI_MESSAGE_TIMING_CLOCK \<or> full = MIDI_MESSAGE_START
                \<or> full = MIDI_MESSAGE_CONTINUE \<or> full = MIDI_MESSAGE_STOP
                \<or> full = MIDI_MESSAGE_ACTIVE_SENSE \<or> full = MIDI_MESSAGE_SYSTEM_RESET
        then (full,
              parser,
              message\<lparr>msg_message_type := full, msg_channel := MIDI_CHANNEL_NONE\<rparr>)
        else (MIDI_MESSAGE_NONE, parser, message))
      else (MIDI_MESSAGE_NONE, parser, message))"

text \<open>
  The statement \<^verbatim>\<open>parser->buffer[parser->byte_count++] = byte\<close>. An index outside
  the two-element array is undefined behaviour in C: the model has no result there
  (\<open>None\<close>), so that a result \<open>Some\<close> of the parser says that the call stayed
  inside the buffer.
\<close>

definition buffer_store :: "midi_parser_t \<Rightarrow> uint8_t \<Rightarrow> midi_parser_t option" where
  "buffer_store parser byte =
     (if byte_count parser = 0
      then Some (parser\<lparr>buffer_0 := byte, byte_count := byte_count parser + 1\<rparr>)
      else if byte_count parser = 1
      then Some (parser\<lparr>buffer_1 := byte, byte_count := byte_count parser + 1\<rparr>)
      else None)"

text \<open>
  \<^verbatim>\<open>parser->buffer[1] << 7 | parser->buffer[0]\<close>: both bytes are promoted to
  \<^verbatim>\<open>int\<close>, the result is converted to \<^verbatim>\<open>uint16_t\<close> by the assignment.
\<close>

definition assemble_14bit :: "midi_parser_t \<Rightarrow> uint16_t" where
  "assemble_14bit parser =
     ucast (push_bit 7 (ucast (buffer_1 parser) :: c_int) OR (ucast (buffer_0 parser) :: c_int))"

definition parse_data_byte ::
  "midi_parser_t \<Rightarrow> uint8_t \<Rightarrow> midi_message_t \<Rightarrow> parse_result option" where
  "parse_data_byte parser byte message =
     (if byte > MIDI_MAX_DATA_BYTE then Some (MIDI_MESSAGE_NONE, parser, message)
      else if byte_count parser \<ge> MIDI_BUFFER_SIZE
      then Some (MIDI_MESSAGE_NONE, parser\<lparr>byte_count := 0\<rparr>, message)
      else if message_type parser = MIDI_MESSAGE_NOTE_OFF
      then (case buffer_store parser byte of None \<Rightarrow> None | Some parser1 \<Rightarrow>
        if byte_count parser1 \<noteq> 2 then Some (MIDI_MESSAGE_NONE, parser1, message)
        else Some (MIDI_MESSAGE_NOTE_OFF,
                   parser1\<lparr>byte_count := 0\<rparr>,
                   message\<lparr>msg_message_type := MIDI_MESSAGE_NOTE_OFF,
                           msg_channel := channel parser1,
                           note_number := buffer_0 parser1,
                           velocity := buffer_1 parser1\<rparr>))
      else if message_type parser = MIDI_MESSAGE_NOTE_ON
      then (case buffer_store parser byte of None \<Rightarrow> None | Some parser1 \<Rightarrow>
        if byte_count parser1 \<noteq> 2 then Some (MIDI_MESSAGE_NONE, parser1, message)
        else
          let message1 = message\<lparr>msg_channel := channel parser1,
                                 note_number := buffer_0 parser1,
                                 velocity := buffer_1 parser1\<rparr>;
              message2 = (if velocity message1 = 0
                          then message1\<lparr>msg_message_type := MIDI_MESSAGE_NOTE_OFF\<rparr>
                          else message1\<lparr>msg_message_type := MIDI_MESSAGE_NOTE_ON\<rparr>)
          in Some (msg_message_type message2, parser1\<lparr>byte_count := 0\<rparr>, message2))
      else if message_type parser = MIDI_MESSAGE_KEY_PRESSURE
      then (case buffer_store parser byte of None \<Rightarrow> None | Some parser1 \<Rightarrow>
        if byte_count parser1 \<noteq> 2 then Some (MIDI_MESSAGE_NONE, parser1, message)
        else Some (MIDI_MESSAGE_KEY_PRESSURE,
                   parser1\<lparr>byte_count := 0\<rparr>,
                   message\<lparr>msg_message_type := MIDI_MESSAGE_KEY_PRESSURE,
                           msg_channel := channel parser1,
                           key := buffer_0 parser1,
                           key_pressure := buffer_1 parser1\<rparr>))
      else if message_type parser = MIDI_MESSAGE_CONTROL_CHANGE
      then (case buffer_store parser byte of None \<Rightarrow> None | Some parser1 \<Rightarrow>
        if byte_count parser1 \<noteq> 2 then Some (MIDI_MESSAGE_NONE, parser1, message)
        else
          let message1 = message\<lparr>msg_message_type := MIDI_MESSAGE_CONTROL_CHANGE,
                                 msg_channel := channel parser1,
                                 controller := ucast (buffer_0 parser1),
                                 control_value := buffer_1 parser1\<rparr>;
              message2 = (if controller message1 = MIDI_CC_ALL_SOUND_OFF
                             \<or> controller message1 = MIDI_CC_RESET_ALL_CONTROLLERS
                             \<or> controller message1 = MIDI_CC_LOCAL_CONTROL
                             \<or> controller message1 = MIDI_CC_ALL_NOTES_OFF
                             \<or> controller message1 = MIDI_CC_OMNI_OFF
                             \<or> controller message1 = MIDI_CC_OMNI_ON
                             \<or> controller message1 = MIDI_CC_MONO_ON
                             \<or> controller message1 = MIDI_CC_POLY_ON
                          then message1\<lparr>msg_message_type := controller message1\<rparr>
                          else message1)
          in Some (msg_message_type message2, parser1\<lparr>byte_count := 0\<rparr>, message2))
      else if message_type parser = MIDI_MESSAGE_PROGRAM_CHANGE
      then Some (MIDI_MESSAGE_PROGRAM_CHANGE,
                 parser\<lparr>byte_count := 0\<rparr>,
                 message\<lparr>msg_message_type := MIDI_MESSAGE_PROGRAM_CHANGE,
                         msg_channel := channel parser,
                         program := byte\<rparr>)
      else if message_type parser = MIDI_MESSAGE_CHANNEL_PRESSURE
      then Some (MIDI_MESSAGE_CHANNEL_PRESSURE,
                 parser\<lparr>byte_count := 0\<rparr>,
                 message\<lparr>msg_message_type := MIDI_MESSAGE_CHANNEL_PRESSURE,
                         msg_channel := channel parser,
                         channel_pressure := byte\<rparr>)
      else if message_type parser = MIDI_MESSAGE_PITCH_BEND
      then (case buffer_store parser byte of None \<Rightarrow> None | Some parser1 \<Rightarrow>
        if byte_count parser1 \<noteq> 2 then Some (MIDI_MESSAGE_NONE, parser1, message)
        else Some (MIDI_MESSAGE_PITCH_BEND,
                   parser1\<lparr>byte_count := 0\<rparr>,
                   message\<lparr>msg_message_type := MIDI_MESSAGE_PITCH_BEND,
                           msg_channel := channel parser1,
                           pitch_bend := assemble_14bit parser1\<rparr>))
      else if message_type parser = MIDI_MESSAGE_SYSTEM_EXCLUSIVE
      then Some (MIDI_MESSAGE_NONE, parser, message)
      else if message_type parser = MIDI_MESSAGE_MTC_QUARTER_FRAME
      then Some (MIDI_MESSAGE_MTC_QUARTER_FRAME,
                 parser\<lparr>message_type := MIDI_MESSAGE_NONE, byte_count := 0\<rparr>,
                 message\<lparr>msg_message_type := MIDI_MESSAGE_MTC_QUARTER_FRAME,
                         msg_channel := MIDI_CHANNEL_NONE,
                         mtc_msg_type := drop_bit 4 byte,
                         mtc_values := byte AND MIDI_LSN_MASK\<rparr>)
      else if message_type parser = MIDI_MESSAGE_SONG_POSITION_POINTER
      then (case buffer_store parser byte of None \<Rightarrow> None | Some parser1 \<Rightarrow>
        if byte_count parser1 \<noteq> 2 then Some (MIDI_MESSAGE_NONE, parser1, message)
        else Some (MIDI_MESSAGE_SONG_POSITION_POINTER,
                   parser1\<lparr>message_type := MIDI_MESSAGE_NONE, byte_count := 0\<rparr>,
                   message\<lparr>msg_message_type := MIDI_MESSAGE_SONG_POSITION_POINTER,
                           msg_channel := MIDI_CHANNEL_NONE,
                           song_position := assemble_14bit parser1\<rparr>))
      else if message_type parser = MIDI_MESSAGE_SONG_SELECT
      then Some (MIDI_MESSAGE_SONG_SELECT,
                 parser\<lparr>message_type := MIDI_MESSAGE_NONE, byte_count := 0\<rparr>,
                 message\<lparr>msg_message_type := MIDI_MESSAGE_SONG_SELECT,
                         msg_channel := MIDI_CHANNEL_NONE,
                         song_select := byte\<rparr>)
      else Some (MIDI_MESSAGE_NONE, parser, message))"

definition midi_parse_byte ::
  "midi_parser_t \<Rightarrow> uint8_t \<Rightarrow> midi_message_t \<Rightarrow> parse_result option" where
  "midi_parse_byte parser byte message =
     (if byte AND MIDI_MSB_MASK \<noteq> 0
      then Some (parse_status_byte parser byte message)
      else parse_data_byte parser byte message)"

text \<open>
  Modelled from the spec: midi.h declares \<^verbatim>\<open>midi_parser_set_active_channel\<close> and
  \<^verbatim>\<open>midi_parser_get_active_channel\<close>, and midi.c has no definition of either. The
  spec has them "store/retrieve a filter value" in the \<open>active_channel\<close> slot of
  the parser state, as "a pass-through accessor only".
\<close>

definition midi_parser_set_active_channel ::
  "midi_parser_t \<Rightarrow> midi_channel_t \<Rightarrow> midi_parser_t" where
  "midi_parser_set_active_channel parser ch = parser\<lparr>active_channel := ch\<rparr>"

definition midi_parser_get_active_channel :: "midi_parser_t \<Rightarrow> midi_channel_t" where
  "midi_parser_get_active_channel parser = active_channel parser"

section \<open>Feeding a byte stream\<close>

text \<open>
  The caller's loop, as the tests of \<^verbatim>\<open>test_midi.c\<close> run it: every byte of the stream goes
  to \<^verbatim>\<open>midi_parse_byte\<close> with the same parser and the same message struct. The
  result lists, call by call, the returned message type and the message struct after
  the call, and ends with the parser and the message after the last call.
\<close>

fun midi_parse_bytes ::
  "midi_parser_t \<Rightarrow> midi_message_t \<Rightarrow> uint8_t list \<Rightarrow>
     ((midi_message_type_t \<times> midi_message_t) list \<times> midi_parser_t \<times> midi_message_t) option"
  where
  "midi_parse_bytes parser message [] = Some ([], parser, message)"
| "midi_parse_bytes parser message (byte # bytes) =
     (case midi_parse_byte parser byte message of
        None \<Rightarrow> None
      | Some (kind, parser1, message1) \<Rightarrow>
          (case midi_parse_bytes parser1 message1 bytes of
             None \<Rightarrow> None
           | Some (results, parser2, message2) \<Rightarrow>
               Some ((kind, message1) # results, parser2, message2)))"

text \<open>
  The fixtures of \<^verbatim>\<open>test_midi.c\<close>: \<^verbatim>\<open>static midi_parser_t parser\<close> starts out as zeros
  and \<^verbatim>\<open>setUp\<close> clears the message with \<^verbatim>\<open>memset\<close>.
\<close>

definition static_parser :: midi_parser_t where
  "static_parser =
     \<lparr>message_type = 0, channel = 0, active_channel = 0,
      buffer_0 = 0, buffer_1 = 0, byte_count = 0\<rparr>"

definition zero_message :: midi_message_t where
  "zero_message =
     \<lparr>msg_message_type = 0, msg_channel = 0, note_number = 0, velocity = 0,
      key = 0, key_pressure = 0, controller = 0, control_value = 0, program = 0,
      channel_pressure = 0, pitch_bend = 0, song_position = 0, song_select = 0,
      mtc_msg_type = 0, mtc_values = 0\<rparr>"

text \<open>
  A parser that has seen the status byte of message type \<open>t\<close> on channel \<open>ch\<close> and
  then one data byte \<open>d\<close>, as the tests find it after those two calls.
\<close>

definition awaiting_second_byte ::
  "midi_message_type_t \<Rightarrow> midi_channel_t \<Rightarrow> uint8_t \<Rightarrow> midi_parser_t" where
  "awaiting_second_byte t ch d =
     \<lparr>message_type = t, channel = ch, active_channel = MIDI_CHANNEL_NONE,
      buffer_0 = d, buffer_1 = 0, byte_count = 1\<rparr>"

text \<open>
  A parser that has just seen the status byte of message type \<open>t\<close> on channel \<open>ch\<close>.
\<close>

definition awaiting_first_byte :: "midi_message_type_t \<Rightarrow> midi_channel_t \<Rightarrow> midi_parser_t" where
  "awaiting_first_byte t ch =
     \<lparr>message_type = t, channel = ch, active_channel = MIDI_CHANNEL_NONE,
      buffer_0 = 0, buffer_1 = 0, byte_count = 0\<rparr>"

section \<open>Notions of the specification\<close>

text \<open>
  The number of data bytes a pending message type requires, in the words of the
  specification: two for Note Off, Note On, Poly Key Pressure, Control Change, Pitch
  Bend and Song Position Pointer; one for Program Change, Channel Pressure, Song
  Select and MTC Quarter Frame; none for every other type.
\<close>

definition data_bytes_required :: "midi_message_type_t \<Rightarrow> nat" where
  "data_bytes_required t =
     (if t = MIDI_MESSAGE_NOTE_OFF \<or> t = MIDI_MESSAGE_NOTE_ON
         \<or> t = MIDI_MESSAGE_KEY_PRESSURE \<or> t = MIDI_MESSAGE_CONTROL_CHANGE
         \<or> t = MIDI_MESSAGE_PITCH_BEND \<or> t = MIDI_MESSAGE_SONG_POSITION_POINTER
      then 2
      else if t = MIDI_MESSAGE_PROGRAM_CHANGE \<or> t = MIDI_MESSAGE_CHANNEL_PRESSURE
         \<or> t = MIDI_MESSAGE_SONG_SELECT \<or> t = MIDI_MESSAGE_MTC_QUARTER_FRAME
      then 1
      else 0)"

text \<open>
  The invariant of the accumulation count: nothing is accumulated, or one byte is and
  the pending message type is one that takes two.
\<close>

definition count_invariant :: "midi_parser_t \<Rightarrow> bool" where
  "count_invariant parser \<longleftrightarrow>
     byte_count parser = 0
     \<or> (byte_count parser = 1 \<and> data_bytes_required (message_type parser) = 2)"

text \<open>
  The channel voice message types, which keep running status.
\<close>

definition channel_voice :: "midi_message_type_t \<Rightarrow> bool" where
  "channel_voice t \<longleftrightarrow>
     t = MIDI_MESSAGE_NOTE_OFF \<or> t = MIDI_MESSAGE_NOTE_ON
     \<or> t = MIDI_MESSAGE_KEY_PRESSURE \<or> t = MIDI_MESSAGE_CONTROL_CHANGE
     \<or> t = MIDI_MESSAGE_PROGRAM_CHANGE \<or> t = MIDI_MESSAGE_CHANNEL_PRESSURE
     \<or> t = MIDI_MESSAGE_PITCH_BEND"

text \<open>
  The bytes of the System Real-Time messages and the status bytes that MIDI 1.0
  leaves undefined.
\<close>

definition system_realtime :: "uint8_t \<Rightarrow> bool" where
  "system_realtime b \<longleftrightarrow>
     b = 0xF8 \<or> b = 0xFA \<or> b = 0xFB \<or> b = 0xFC \<or> b = 0xFE \<or> b = 0xFF"

definition undefined_status :: "uint8_t \<Rightarrow> bool" where
  "undefined_status b \<longleftrightarrow> b = 0xF4 \<or> b = 0xF5 \<or> b = 0xF9 \<or> b = 0xFD"

section \<open>Bytes and casts\<close>

lemma unat_u8_less: "unat (b :: uint8_t) < 256"
proof -
  have "unat b < 2 ^ LENGTH(8)" by (rule unsigned_less)
  then show ?thesis by simp
qed

lemma bit7_iff: "bit (b :: uint8_t) 7 \<longleftrightarrow> 128 \<le> unat b"
proof -
  have "bit b 7 \<longleftrightarrow> bit (unat b) 7"
    by (simp add: bit_unsigned_iff)
  also have "\<dots> \<longleftrightarrow> odd (unat b div 128)"
    by (simp add: bit_iff_odd)
  also have "\<dots> \<longleftrightarrow> 128 \<le> unat b"
  proof (cases "128 \<le> unat b")
    case True
    with unat_u8_less[of b] have "unat b div 128 = 1" by linarith
    with True show ?thesis by simp
  next
    case False
    then have "unat b div 128 = 0" by simp
    with False show ?thesis by simp
  qed
  finally show ?thesis .
qed

text \<open>A data byte, bit 7 clear, is a byte of at most 127.\<close>

lemma data_byte_iff: "(b :: uint8_t) AND MIDI_MSB_MASK = 0 \<longleftrightarrow> b \<le> MIDI_MAX_DATA_BYTE"
proof -
  have "b AND MIDI_MSB_MASK = 0 \<longleftrightarrow> \<not> bit b 7"
    using and_exp_eq_0_iff_not_bit[of b 7] by simp
  then show ?thesis
    by (auto simp add: bit7_iff word_le_nat_alt not_le)
qed

lemma data_byte_not_greater: "(b :: uint8_t) \<le> MIDI_MAX_DATA_BYTE \<Longrightarrow> \<not> MIDI_MAX_DATA_BYTE < b"
  by (simp add: not_less)

text \<open>The cast of a byte to an enum loses nothing.\<close>

lemma unat_ucast_u8: "unat (ucast (b :: uint8_t) :: 32 word) = unat b"
  by (simp add: unsigned_ucast_eq take_bit_nat_eq_self unat_u8_less[THEN less_trans])

lemma ucast_u8_eq_iff: "(ucast (b :: uint8_t) :: 32 word) = ucast (c :: uint8_t) \<longleftrightarrow> b = c"
  by (metis unat_ucast_u8 word_unat_eq_iff)

text \<open>
  The status byte that the tests build as \<^verbatim>\<open>MIDI_MESSAGE_NOTE_ON | channel\<close>, for a
  channel from 0 to 15, has the message type in its high nibble and the channel in its
  low nibble.
\<close>

lemma low_nibble:
  assumes "ch \<le> MIDI_CHANNEL_MASK"
  shows "ch AND MIDI_CHANNEL_MASK = ch"
proof -
  from assms have "ch < 2 ^ 4" by (simp add: word_le_nat_alt word_less_nat_alt)
  then have "ch AND mask 4 = ch" by (rule less_mask_eq)
  then show ?thesis by (simp add: mask_eq_exp_minus_1)
qed

lemma status_byte_of_channel:
  assumes "ch \<le> MIDI_CHANNEL_MASK" and "k AND MIDI_CHANNEL_MASK = 0"
  shows "(k OR ch) AND MIDI_MSN_MASK = k AND MIDI_MSN_MASK"
    and "(k OR ch) AND MIDI_CHANNEL_MASK = ch"
proof -
  have "ch AND MIDI_MSN_MASK = (ch AND MIDI_CHANNEL_MASK) AND MIDI_MSN_MASK"
    using assms(1) by (simp only: low_nibble)
  also have "\<dots> = 0" by (simp add: and.assoc)
  finally have high: "ch AND MIDI_MSN_MASK = 0" .
  show "(k OR ch) AND MIDI_MSN_MASK = k AND MIDI_MSN_MASK"
    by (simp add: bit.conj_disj_distrib2 high)
  show "(k OR ch) AND MIDI_CHANNEL_MASK = ch"
    using assms by (simp add: bit.conj_disj_distrib2 low_nibble)
qed

lemmas channel_mode_casts =
  ucast_u8_eq_iff[of _ "0x78", simplified] ucast_u8_eq_iff[of _ "0x79", simplified]
  ucast_u8_eq_iff[of _ "0x7A", simplified] ucast_u8_eq_iff[of _ "0x7B", simplified]
  ucast_u8_eq_iff[of _ "0x7C", simplified] ucast_u8_eq_iff[of _ "0x7D", simplified]
  ucast_u8_eq_iff[of _ "0x7E", simplified] ucast_u8_eq_iff[of _ "0x7F", simplified]

text \<open>The buffer guard lets the counts 0 and 1 pass.\<close>

lemma buffer_guard:
  "\<not> MIDI_BUFFER_SIZE \<le> (0 :: uint8_t)" "\<not> MIDI_BUFFER_SIZE \<le> (1 :: uint8_t)"
  by (simp_all add: word_le_nat_alt)

section \<open>The top-level dispatch\<close>

lemma data_step:
  "b \<le> MIDI_MAX_DATA_BYTE \<Longrightarrow> midi_parse_byte p b m = parse_data_byte p b m"
  by (simp add: midi_parse_byte_def data_byte_iff)

lemma status_step:
  "\<not> b \<le> MIDI_MAX_DATA_BYTE \<Longrightarrow> midi_parse_byte p b m = Some (parse_status_byte p b m)"
  by (simp add: midi_parse_byte_def data_byte_iff)

section \<open>Note On and its velocity\<close>

text \<open>
  Claim C1. The parser has Note On pending and one data byte, the note, in its
  buffer. Then the second data byte \<open>v\<close>, the velocity, completes a message: for
  \<open>v = 0\<close> the returned type and the type in the message are Note Off, for \<open>v\<close> from
  1 to 127 they are Note On; the message has the channel of the parser, the buffered
  note and the velocity \<open>v\<close>; the pending type of the parser is still Note On. The
  channel and the note are whatever the parser holds, so every channel 0-15 and every
  note 0-127 is covered.
\<close>

theorem note_on_velocity_zero_is_note_off:
  assumes "message_type p = MIDI_MESSAGE_NOTE_ON" and "byte_count p = 1"
    and "v \<le> MIDI_MAX_DATA_BYTE"
  shows "\<exists>kind p' m'. midi_parse_byte p v m = Some (kind, p', m')
    \<and> kind = (if v = 0 then MIDI_MESSAGE_NOTE_OFF else MIDI_MESSAGE_NOTE_ON)
    \<and> msg_message_type m' = kind
    \<and> msg_channel m' = channel p \<and> note_number m' = buffer_0 p \<and> velocity m' = v
    \<and> message_type p' = MIDI_MESSAGE_NOTE_ON \<and> channel p' = channel p
    \<and> byte_count p' = 0"
  using assms
  by (simp add: data_step parse_data_byte_def buffer_store_def not_less Let_def buffer_guard)

theorem note_on_velocity_zero_is_note_off_witness:
  "message_type (awaiting_second_byte MIDI_MESSAGE_NOTE_ON 3 60) = MIDI_MESSAGE_NOTE_ON
   \<and> byte_count (awaiting_second_byte MIDI_MESSAGE_NOTE_ON 3 60) = 1
   \<and> (0 :: uint8_t) \<le> MIDI_MAX_DATA_BYTE
   \<and> (\<exists>kind p' m'.
     midi_parse_byte (awaiting_second_byte MIDI_MESSAGE_NOTE_ON 3 60) 0 zero_message
       = Some (kind, p', m')
     \<and> kind = MIDI_MESSAGE_NOTE_OFF \<and> msg_message_type m' = MIDI_MESSAGE_NOTE_OFF
     \<and> msg_channel m' = 3 \<and> note_number m' = 60 \<and> velocity m' = 0
     \<and> message_type p' = MIDI_MESSAGE_NOTE_ON \<and> channel p' = 3 \<and> byte_count p' = 0)"
  using note_on_velocity_zero_is_note_off
    [of "awaiting_second_byte MIDI_MESSAGE_NOTE_ON 3 60" 0 zero_message]
  by (simp add: awaiting_second_byte_def)

section \<open>System Real-Time bytes\<close>

lemma parse_realtime:
  "system_realtime b \<Longrightarrow>
   midi_parse_byte p b m =
     Some (ucast b, p, m\<lparr>msg_message_type := ucast b, msg_channel := MIDI_CHANNEL_NONE\<rparr>)"
  by (auto simp: system_realtime_def midi_parse_byte_def parse_status_byte_def)

section \<open>Control Change and the Channel Mode messages\<close>

text \<open>
  Claim C3. The parser has Control Change pending and one data byte, the controller
  number, in its buffer. Then the second data byte \<open>v\<close> completes a message whose
  \<open>controller\<close> is the buffered byte and whose \<open>control_value\<close> is \<open>v\<close>, on the
  channel of the parser. The returned type and the type in the message are the
  Channel Mode type of that number when the controller number is one of 120 to 127,
  and Control Change for every other controller number.
\<close>

theorem control_change_channel_mode:
  assumes "message_type p = MIDI_MESSAGE_CONTROL_CHANGE" and "byte_count p = 1"
    and "v \<le> MIDI_MAX_DATA_BYTE"
  shows "\<exists>kind p' m'. midi_parse_byte p v m = Some (kind, p', m')
    \<and> kind = (if buffer_0 p = 120 then MIDI_MESSAGE_ALL_SOUND_OFF
               else if buffer_0 p = 121 then MIDI_MESSAGE_RESET_ALL_CONTROLLERS
               else if buffer_0 p = 122 then MIDI_MESSAGE_LOCAL_CONTROL
               else if buffer_0 p = 123 then MIDI_MESSAGE_ALL_NOTES_OFF
               else if buffer_0 p = 124 then MIDI_MESSAGE_OMNI_OFF
               else if buffer_0 p = 125 then MIDI_MESSAGE_OMNI_ON
               else if buffer_0 p = 126 then MIDI_MESSAGE_MONO_ON
               else if buffer_0 p = 127 then MIDI_MESSAGE_POLY_ON
               else MIDI_MESSAGE_CONTROL_CHANGE)
    \<and> msg_message_type m' = kind
    \<and> msg_channel m' = channel p
    \<and> controller m' = ucast (buffer_0 p) \<and> control_value m' = v
    \<and> message_type p' = MIDI_MESSAGE_CONTROL_CHANGE \<and> channel p' = channel p
    \<and> byte_count p' = 0"
  using assms
  by (simp add: data_step parse_data_byte_def buffer_store_def not_less Let_def buffer_guard
      channel_mode_casts)

theorem control_change_channel_mode_witness:
  "message_type (awaiting_second_byte MIDI_MESSAGE_CONTROL_CHANGE 9 123)
     = MIDI_MESSAGE_CONTROL_CHANGE
   \<and> byte_count (awaiting_second_byte MIDI_MESSAGE_CONTROL_CHANGE 9 123) = 1
   \<and> (0 :: uint8_t) \<le> MIDI_MAX_DATA_BYTE
   \<and> (\<exists>kind p' m'.
     midi_parse_byte (awaiting_second_byte MIDI_MESSAGE_CONTROL_CHANGE 9 123) 0 zero_message
       = Some (kind, p', m')
     \<and> kind = MIDI_MESSAGE_ALL_NOTES_OFF \<and> msg_message_type m' = MIDI_MESSAGE_ALL_NOTES_OFF
     \<and> msg_channel m' = 9 \<and> controller m' = MIDI_CC_ALL_NOTES_OFF \<and> control_value m' = 0
     \<and> message_type p' = MIDI_MESSAGE_CONTROL_CHANGE \<and> channel p' = 9
     \<and> byte_count p' = 0)"
  using control_change_channel_mode
    [of "awaiting_second_byte MIDI_MESSAGE_CONTROL_CHANGE 9 123" 0 zero_message]
  by (simp add: awaiting_second_byte_def)

section \<open>The 14-bit values\<close>

text \<open>
  Below bit 7 a shifted value has no bits, so that \<^verbatim>\<open>|\<close> with a 7-bit value is
  addition.
\<close>

lemma or_low7:
  fixes H L :: nat
  assumes "L < 128"
  shows "push_bit 7 H OR L = H * 128 + L"
proof -
  have L: "take_bit 7 L = L" using assms by (simp add: take_bit_nat_eq_self)
  have "push_bit 7 H AND take_bit 7 L = 0"
    by (simp add: bit_eq_iff bit_simps)
  then have "push_bit 7 H + L = push_bit 7 H OR L"
    using L by (simp add: disjunctive_add_eq_or)
  then show ?thesis by (simp add: push_bit_eq_mult)
qed

lemma unat_assemble_14bit:
  assumes "buffer_0 p \<le> MIDI_MAX_DATA_BYTE"
  shows "unat (assemble_14bit p) = unat (buffer_1 p) * 128 + unat (buffer_0 p)"
proof -
  let ?H = "unat (buffer_1 p)" and ?L = "unat (buffer_0 p)"
  have L: "?L < 128" using assms by (simp add: word_le_nat_alt)
  have H: "?H < 256" by (rule unat_u8_less)
  have shift: "unat (push_bit 7 (ucast (buffer_1 p) :: c_int)) = push_bit 7 ?H"
  proof -
    have "push_bit 7 ?H < (2 :: nat) ^ 32" using H by (simp add: push_bit_eq_mult)
    then have "take_bit 32 (push_bit 7 ?H) = push_bit 7 ?H" by (simp only: take_bit_nat_eq_self)
    then show ?thesis by (simp add: unsigned_push_bit_eq unat_ucast_u8)
  qed
  have "unat (push_bit 7 (ucast (buffer_1 p) :: c_int) OR ucast (buffer_0 p)) = push_bit 7 ?H OR ?L"
    by (simp only: unsigned_or_eq shift unat_ucast_u8)
  also have "\<dots> = ?H * 128 + ?L" using L by (rule or_low7)
  finally have "unat (assemble_14bit p) = take_bit 16 (?H * 128 + ?L)"
    by (simp add: assemble_14bit_def unsigned_ucast_eq)
  moreover have "?H * 128 + ?L < 2 ^ 16" using H L by simp
  ultimately show ?thesis by (simp add: take_bit_nat_eq_self)
qed

text \<open>
  Claim C6. Two data bytes \<open>low\<close> and \<open>high\<close>, each from 0 to 127, go to a parser
  that has Pitch Bend or Song Position Pointer pending and nothing accumulated. The
  first byte completes nothing, the second completes the message, and the value
  delivered in \<open>pitch_bend\<close> or \<open>song_position\<close> is, as a number,
  \<open>high * 128 + low\<close>: nothing overflows and nothing is cut off.
\<close>

theorem fourteen_bit_value:
  assumes "low \<le> MIDI_MAX_DATA_BYTE" and "high \<le> MIDI_MAX_DATA_BYTE" and "byte_count p = 0"
  shows "(message_type p = MIDI_MESSAGE_PITCH_BEND \<longrightarrow>
           (\<exists>p' m'. midi_parse_bytes p m [low, high] =
                Some ([(MIDI_MESSAGE_NONE, m), (MIDI_MESSAGE_PITCH_BEND, m')], p', m')
              \<and> unat (pitch_bend m') = unat high * 128 + unat low))
       \<and> (message_type p = MIDI_MESSAGE_SONG_POSITION_POINTER \<longrightarrow>
           (\<exists>p' m'. midi_parse_bytes p m [low, high] =
                Some ([(MIDI_MESSAGE_NONE, m), (MIDI_MESSAGE_SONG_POSITION_POINTER, m')], p', m')
              \<and> unat (song_position m') = unat high * 128 + unat low))"
  using assms
  by (simp add: data_step parse_data_byte_def buffer_store_def data_byte_not_greater buffer_guard
       unat_assemble_14bit)

theorem fourteen_bit_value_witness:
  "(1 :: uint8_t) \<le> MIDI_MAX_DATA_BYTE \<and> (64 :: uint8_t) \<le> MIDI_MAX_DATA_BYTE
   \<and> byte_count (awaiting_first_byte MIDI_MESSAGE_PITCH_BEND 2) = 0
   \<and> message_type (awaiting_first_byte MIDI_MESSAGE_PITCH_BEND 2) = MIDI_MESSAGE_PITCH_BEND
   \<and> (\<exists>p' m'. midi_parse_bytes (awaiting_first_byte MIDI_MESSAGE_PITCH_BEND 2) zero_message [1, 64] =
          Some ([(MIDI_MESSAGE_NONE, zero_message), (MIDI_MESSAGE_PITCH_BEND, m')], p', m')
        \<and> unat (pitch_bend m') = 8193)
   \<and> byte_count (awaiting_first_byte MIDI_MESSAGE_SONG_POSITION_POINTER MIDI_CHANNEL_NONE) = 0
   \<and> message_type (awaiting_first_byte MIDI_MESSAGE_SONG_POSITION_POINTER MIDI_CHANNEL_NONE)
       = MIDI_MESSAGE_SONG_POSITION_POINTER
   \<and> (\<exists>p' m'. midi_parse_bytes
          (awaiting_first_byte MIDI_MESSAGE_SONG_POSITION_POINTER MIDI_CHANNEL_NONE) zero_message [1, 64] =
          Some ([(MIDI_MESSAGE_NONE, zero_message), (MIDI_MESSAGE_SONG_POSITION_POINTER, m')], p', m')
        \<and> unat (song_position m') = 8193)"
  using fourteen_bit_value [of 1 64 "awaiting_first_byte MIDI_MESSAGE_PITCH_BEND 2" zero_message]
    fourteen_bit_value [of 1 64 "awaiting_first_byte MIDI_MESSAGE_SONG_POSITION_POINTER MIDI_CHANNEL_NONE"
       zero_message]
  by (simp add: awaiting_first_byte_def)

section \<open>The accumulation count\<close>

text \<open>
  Past the buffer guard the count is 0 or 1, so that every store is inside the
  buffer and every call has a result.
\<close>

lemma count_cases: "\<not> MIDI_BUFFER_SIZE \<le> (c :: uint8_t) \<longleftrightarrow> c = 0 \<or> c = 1"
proof
  assume "\<not> MIDI_BUFFER_SIZE \<le> c"
  then have "unat c < 2" by (simp add: word_le_nat_alt)
  then have "unat c = 0 \<or> unat c = 1" by linarith
  then have "unat c = unat (0 :: uint8_t) \<or> unat c = unat (1 :: uint8_t)" by simp
  then show "c = 0 \<or> c = 1" by (simp only: word_unat_eq_iff)
next
  assume "c = 0 \<or> c = 1"
  then show "\<not> MIDI_BUFFER_SIZE \<le> c" by (auto simp: buffer_guard)
qed

lemma buffer_store_in_range:
  "\<not> MIDI_BUFFER_SIZE \<le> byte_count p \<Longrightarrow> \<exists>p'. buffer_store p b = Some p'"
  by (auto simp: count_cases buffer_store_def)

lemma parse_data_byte_total: "\<exists>r. parse_data_byte p b m = Some r"
proof (cases "MIDI_BUFFER_SIZE \<le> byte_count p")
  case True
  then show ?thesis by (simp add: parse_data_byte_def)
next
  case False
  from buffer_store_in_range[OF this, of b] obtain p' where "buffer_store p b = Some p'" ..
  then show ?thesis by (simp add: parse_data_byte_def Let_def)
qed

lemma midi_parse_byte_total: "\<exists>r. midi_parse_byte p b m = Some r"
  using parse_data_byte_total[of p b m]
  by (cases "parse_status_byte p b m") (auto simp: midi_parse_byte_def)

lemma status_count_invariant:
  "count_invariant p \<Longrightarrow> parse_status_byte p b m = (k, p', m') \<Longrightarrow> count_invariant p'"
  by (auto simp: parse_status_byte_def count_invariant_def Let_def split: if_splits)

lemma data_count_invariant:
  "parse_data_byte p b m = Some (k, p', m') \<Longrightarrow> count_invariant p \<Longrightarrow> count_invariant p'"
  unfolding parse_data_byte_def count_invariant_def
  by (auto simp: buffer_store_def data_bytes_required_def Let_def split: if_splits)

lemma run_count_invariant:
  "count_invariant p \<Longrightarrow> midi_parse_bytes p m bs = Some (rs, p', m') \<Longrightarrow> count_invariant p'"
proof (induction bs arbitrary: p m rs)
  case Nil
  then show ?case by simp
next
  case (Cons b bs)
  from Cons.prems(2) obtain k p1 m1 rs1
    where step: "midi_parse_byte p b m = Some (k, p1, m1)"
      and rest: "midi_parse_bytes p1 m1 bs = Some (rs1, p', m')"
    by (auto split: option.splits)
  have "count_invariant p1"
  proof (cases "b AND MIDI_MSB_MASK \<noteq> 0")
    case True
    with step have "parse_status_byte p b m = (k, p1, m1)" by (simp add: midi_parse_byte_def)
    with Cons.prems(1) show ?thesis by (rule status_count_invariant)
  next
    case False
    with step have "parse_data_byte p b m = Some (k, p1, m1)" by (simp add: midi_parse_byte_def)
    then show ?thesis using Cons.prems(1) by (rule data_count_invariant)
  qed
  then show ?case using rest by (rule Cons.IH)
qed

lemma init_count_invariant: "count_invariant (midi_parser_init p)"
  by (simp add: count_invariant_def midi_parser_init_def)

lemma count_invariant_bound:
  "count_invariant p \<Longrightarrow>
     unat (byte_count p) \<le> data_bytes_required (message_type p)
     \<and> (byte_count p = 0 \<or> byte_count p = 1)"
  by (auto simp: count_invariant_def)

section \<open>Status bytes of the system messages\<close>

lemmas system_casts =
  ucast_u8_eq_iff[of _ "0xF0", simplified] ucast_u8_eq_iff[of _ "0xF1", simplified]
  ucast_u8_eq_iff[of _ "0xF2", simplified] ucast_u8_eq_iff[of _ "0xF3", simplified]
  ucast_u8_eq_iff[of _ "0xF6", simplified] ucast_u8_eq_iff[of _ "0xF7", simplified]
  ucast_u8_eq_iff[of _ "0xF8", simplified] ucast_u8_eq_iff[of _ "0xFA", simplified]
  ucast_u8_eq_iff[of _ "0xFB", simplified] ucast_u8_eq_iff[of _ "0xFC", simplified]
  ucast_u8_eq_iff[of _ "0xFE", simplified] ucast_u8_eq_iff[of _ "0xFF", simplified]

lemma parse_tune_request_eox:
  "b = 0xF6 \<or> b = 0xF7 \<Longrightarrow>
   midi_parse_byte p b m =
     Some (ucast b,
           p\<lparr>message_type := MIDI_MESSAGE_NONE, channel := MIDI_CHANNEL_NONE, byte_count := 0\<rparr>,
           m\<lparr>msg_message_type := ucast b, msg_channel := MIDI_CHANNEL_NONE\<rparr>)"
  by (auto simp: midi_parse_byte_def parse_status_byte_def)

lemma data_byte_without_pending:
  "d \<le> MIDI_MAX_DATA_BYTE \<Longrightarrow> data_bytes_required (message_type p) = 0 \<Longrightarrow>
   midi_parse_byte p d m =
     Some (MIDI_MESSAGE_NONE, if MIDI_BUFFER_SIZE \<le> byte_count p then p\<lparr>byte_count := 0\<rparr> else p, m)"
  by (simp add: data_step parse_data_byte_def data_byte_not_greater data_bytes_required_def
      split: if_splits)

lemma status_clears_and_completes:
  assumes "b AND MIDI_MSB_MASK \<noteq> 0" and "message_type p \<noteq> MIDI_MESSAGE_NONE"
    and "midi_parse_byte p b m = Some (kind, p', m')"
  shows "kind \<noteq> MIDI_MESSAGE_NONE \<and> message_type p' = MIDI_MESSAGE_NONE \<longleftrightarrow> b = 0xF6 \<or> b = 0xF7"
  using assms
  by (auto simp: midi_parse_byte_def parse_status_byte_def Let_def system_casts split: if_splits)

lemma midi_parse_bytes_total: "\<exists>r. midi_parse_bytes p m bs = Some r"
proof (induction bs arbitrary: p m)
  case Nil
  show ?case by simp
next
  case (Cons b bs)
  obtain k p1 m1 where "midi_parse_byte p b m = Some (k, p1, m1)"
    using midi_parse_byte_total[of p b m] by auto
  moreover obtain rs p2 m2 where "midi_parse_bytes p1 m1 bs = Some (rs, p2, m2)"
    using Cons.IH[of p1 m1] by auto
  ultimately show ?case by simp
qed

section \<open>Running a Note On\<close>

lemma status_not_data:
  "s AND MIDI_MSN_MASK = k \<Longrightarrow> k AND MIDI_MSB_MASK \<noteq> 0 \<Longrightarrow> \<not> s \<le> MIDI_MAX_DATA_BYTE"
proof -
  assume k: "s AND MIDI_MSN_MASK = k" and msb: "k AND MIDI_MSB_MASK \<noteq> 0"
  have "s AND MIDI_MSB_MASK = (s AND MIDI_MSN_MASK) AND MIDI_MSB_MASK"
    by (simp add: and.assoc)
  with k msb show ?thesis by (simp add: data_byte_iff[symmetric])
qed

lemma parse_voice_status:
  assumes "s AND MIDI_MSN_MASK = k"
    and "k = 0x80 \<or> k = 0x90 \<or> k = 0xA0 \<or> k = 0xB0 \<or> k = 0xC0 \<or> k = 0xD0 \<or> k = 0xE0"
  shows "midi_parse_byte p s m =
     Some (MIDI_MESSAGE_NONE,
           p\<lparr>message_type := ucast k, channel := ucast (s AND MIDI_CHANNEL_MASK), byte_count := 0\<rparr>,
           m)"
proof -
  from assms(2) have "k AND MIDI_MSB_MASK \<noteq> 0" by auto
  with assms(1) have "\<not> s \<le> MIDI_MAX_DATA_BYTE" by (rule status_not_data)
  then have "midi_parse_byte p s m = Some (parse_status_byte p s m)" by (rule status_step)
  with assms show ?thesis by (auto simp: parse_status_byte_def)
qed

lemma note_on_run:
  assumes "s AND MIDI_MSN_MASK = 0x90" and "n \<le> MIDI_MAX_DATA_BYTE" and "v \<le> MIDI_MAX_DATA_BYTE"
  shows "midi_parse_bytes p m [s, n, v] =
     Some ([(MIDI_MESSAGE_NONE, m), (MIDI_MESSAGE_NONE, m),
            (if v = 0 then MIDI_MESSAGE_NOTE_OFF else MIDI_MESSAGE_NOTE_ON,
             m\<lparr>msg_channel := ucast (s AND MIDI_CHANNEL_MASK), note_number := n, velocity := v,
               msg_message_type := if v = 0 then MIDI_MESSAGE_NOTE_OFF else MIDI_MESSAGE_NOTE_ON\<rparr>)],
           p\<lparr>message_type := MIDI_MESSAGE_NOTE_ON, channel := ucast (s AND MIDI_CHANNEL_MASK),
             buffer_0 := n, buffer_1 := v, byte_count := 0\<rparr>,
           m\<lparr>msg_channel := ucast (s AND MIDI_CHANNEL_MASK), note_number := n, velocity := v,
               msg_message_type := if v = 0 then MIDI_MESSAGE_NOTE_OFF else MIDI_MESSAGE_NOTE_ON\<rparr>)"
  using assms
  by (simp add: parse_voice_status[where k="0x90"] data_step parse_data_byte_def buffer_store_def
      data_byte_not_greater buffer_guard Let_def)

text \<open>
  The exhaustive test of \<^verbatim>\<open>test_midi.c\<close>, \<^verbatim>\<open>test_note_on_message\<close>, for all channels,
  notes and velocities at once.
\<close>

lemma note_on_exhaustive:
  assumes "ch \<le> MIDI_CHANNEL_MASK" and "n \<le> MIDI_MAX_DATA_BYTE" and "v \<le> MIDI_MAX_DATA_BYTE"
  shows "\<exists>kind p' m'.
     midi_parse_bytes p m [0x90 OR ch, n, v] =
       Some ([(MIDI_MESSAGE_NONE, m), (MIDI_MESSAGE_NONE, m), (kind, m')], p', m')
     \<and> kind = (if v = 0 then MIDI_MESSAGE_NOTE_OFF else MIDI_MESSAGE_NOTE_ON)
     \<and> msg_message_type m' = kind \<and> msg_channel m' = ucast ch
     \<and> note_number m' = n \<and> velocity m' = v
     \<and> message_type p' = MIDI_MESSAGE_NOTE_ON \<and> channel p' = ucast ch \<and> byte_count p' = 0"
proof -
  from assms(1) have "(0x90 OR ch) AND MIDI_MSN_MASK = 0x90"
    and "(0x90 OR ch) AND MIDI_CHANNEL_MASK = ch"
    by (simp_all add: status_byte_of_channel)
  with assms(2,3) show ?thesis
    by (simp add: note_on_run del: midi_parse_bytes.simps)
qed

lemma note_on_run_interrupted:
  assumes "s AND MIDI_MSN_MASK = 0x90" and "n \<le> MIDI_MAX_DATA_BYTE" and "v \<le> MIDI_MAX_DATA_BYTE"
    and "system_realtime b"
  shows "midi_parse_bytes p m [s, n, b, v] =
     Some ([(MIDI_MESSAGE_NONE, m), (MIDI_MESSAGE_NONE, m),
            (ucast b, m\<lparr>msg_message_type := ucast b, msg_channel := MIDI_CHANNEL_NONE\<rparr>),
            (if v = 0 then MIDI_MESSAGE_NOTE_OFF else MIDI_MESSAGE_NOTE_ON,
             m\<lparr>msg_channel := ucast (s AND MIDI_CHANNEL_MASK), note_number := n, velocity := v,
               msg_message_type := if v = 0 then MIDI_MESSAGE_NOTE_OFF else MIDI_MESSAGE_NOTE_ON\<rparr>)],
           p\<lparr>message_type := MIDI_MESSAGE_NOTE_ON, channel := ucast (s AND MIDI_CHANNEL_MASK),
             buffer_0 := n, buffer_1 := v, byte_count := 0\<rparr>,
           m\<lparr>msg_channel := ucast (s AND MIDI_CHANNEL_MASK), note_number := n, velocity := v,
               msg_message_type := if v = 0 then MIDI_MESSAGE_NOTE_OFF else MIDI_MESSAGE_NOTE_ON\<rparr>)"
  using assms
  by (simp add: parse_voice_status[where k="0x90"] parse_realtime data_step parse_data_byte_def
      buffer_store_def data_byte_not_greater buffer_guard Let_def)

section \<open>What a step reads and what it keeps\<close>

lemma parse_status_byte_active_channel:
  "parse_status_byte (p\<lparr>active_channel := a\<rparr>) b m =
     (case parse_status_byte p b m of (kind, p', m') \<Rightarrow> (kind, p'\<lparr>active_channel := a\<rparr>, m'))"
  by (simp add: parse_status_byte_def Let_def)

lemma buffer_store_active_channel:
  "buffer_store (p\<lparr>active_channel := a\<rparr>) b =
     map_option (\<lambda>p'. p'\<lparr>active_channel := a\<rparr>) (buffer_store p b)"
  by (simp add: buffer_store_def)

lemma assemble_14bit_active_channel:
  "assemble_14bit (p\<lparr>active_channel := a\<rparr>) = assemble_14bit p"
  by (simp add: assemble_14bit_def)

lemma parse_data_byte_active_channel:
  "parse_data_byte (p\<lparr>active_channel := a\<rparr>) b m =
     map_option (\<lambda>(kind, p', m'). (kind, p'\<lparr>active_channel := a\<rparr>, m')) (parse_data_byte p b m)"
proof (cases "buffer_store p b")
  case None
  then show ?thesis
    by (simp add: parse_data_byte_def buffer_store_active_channel)
next
  case (Some p1)
  then show ?thesis
    by (simp add: parse_data_byte_def buffer_store_active_channel assemble_14bit_active_channel Let_def)
qed

lemma midi_parse_byte_active_channel:
  "midi_parse_byte (p\<lparr>active_channel := a\<rparr>) b m =
     map_option (\<lambda>(kind, p', m'). (kind, p'\<lparr>active_channel := a\<rparr>, m')) (midi_parse_byte p b m)"
  by (simp add: midi_parse_byte_def parse_status_byte_active_channel parse_data_byte_active_channel
      split: prod.splits)

lemma parse_status_byte_keeps_active_channel:
  "parse_status_byte p b m = (kind, p', m') \<Longrightarrow> active_channel p' = active_channel p"
  by (auto simp: parse_status_byte_def Let_def split: if_splits)

lemma buffer_store_keeps:
  "buffer_store p b = Some p' \<Longrightarrow>
     active_channel p' = active_channel p \<and> message_type p' = message_type p \<and> channel p' = channel p"
  by (auto simp: buffer_store_def split: if_splits)

lemma parse_data_byte_keeps_active_channel:
  "parse_data_byte p b m = Some (kind, p', m') \<Longrightarrow> active_channel p' = active_channel p"
  by (auto simp: parse_data_byte_def Let_def split: if_splits option.splits dest: buffer_store_keeps)

lemma parse_data_byte_keeps_running_status:
  "parse_data_byte p b m = Some (kind, p', m') \<Longrightarrow> channel_voice (message_type p) \<Longrightarrow>
     message_type p' = message_type p \<and> channel p' = channel p"
  by (auto simp: parse_data_byte_def channel_voice_def Let_def split: if_splits option.splits
      dest: buffer_store_keeps)

section \<open>Running status\<close>

lemma one_byte_run:
  assumes "s AND MIDI_MSN_MASK = k" and "k = 0xC0 \<or> k = 0xD0"
    and "d1 \<le> MIDI_MAX_DATA_BYTE" and "d2 \<le> MIDI_MAX_DATA_BYTE"
  shows "midi_parse_bytes p m [s, d1, d2] =
     Some ([(MIDI_MESSAGE_NONE, m),
            (ucast k, if k = 0xC0
               then m\<lparr>msg_message_type := MIDI_MESSAGE_PROGRAM_CHANGE,
                      msg_channel := ucast (s AND MIDI_CHANNEL_MASK), program := d1\<rparr>
               else m\<lparr>msg_message_type := MIDI_MESSAGE_CHANNEL_PRESSURE,
                      msg_channel := ucast (s AND MIDI_CHANNEL_MASK), channel_pressure := d1\<rparr>),
            (ucast k, if k = 0xC0
               then m\<lparr>msg_message_type := MIDI_MESSAGE_PROGRAM_CHANGE,
                      msg_channel := ucast (s AND MIDI_CHANNEL_MASK), program := d2\<rparr>
               else m\<lparr>msg_message_type := MIDI_MESSAGE_CHANNEL_PRESSURE,
                      msg_channel := ucast (s AND MIDI_CHANNEL_MASK), channel_pressure := d2\<rparr>)],
           p\<lparr>message_type := ucast k, channel := ucast (s AND MIDI_CHANNEL_MASK), byte_count := 0\<rparr>,
           if k = 0xC0
               then m\<lparr>msg_message_type := MIDI_MESSAGE_PROGRAM_CHANGE,
                      msg_channel := ucast (s AND MIDI_CHANNEL_MASK), program := d2\<rparr>
               else m\<lparr>msg_message_type := MIDI_MESSAGE_CHANNEL_PRESSURE,
                      msg_channel := ucast (s AND MIDI_CHANNEL_MASK), channel_pressure := d2\<rparr>)"
  using assms
  by (auto simp add: parse_voice_status[where k=k] data_step parse_data_byte_def
      data_byte_not_greater buffer_guard)

lemma note_on_run_twice:
  assumes "s AND MIDI_MSN_MASK = 0x90" and "n1 \<le> MIDI_MAX_DATA_BYTE" and "v1 \<le> MIDI_MAX_DATA_BYTE"
    and "n2 \<le> MIDI_MAX_DATA_BYTE" and "v2 \<le> MIDI_MAX_DATA_BYTE"
  shows "midi_parse_bytes p m [s, n1, v1, n2, v2] =
     Some ([(MIDI_MESSAGE_NONE, m), (MIDI_MESSAGE_NONE, m),
            (if v1 = 0 then MIDI_MESSAGE_NOTE_OFF else MIDI_MESSAGE_NOTE_ON,
             m\<lparr>msg_channel := ucast (s AND MIDI_CHANNEL_MASK), note_number := n1, velocity := v1,
               msg_message_type := if v1 = 0 then MIDI_MESSAGE_NOTE_OFF else MIDI_MESSAGE_NOTE_ON\<rparr>),
            (MIDI_MESSAGE_NONE,
             m\<lparr>msg_channel := ucast (s AND MIDI_CHANNEL_MASK), note_number := n1, velocity := v1,
               msg_message_type := if v1 = 0 then MIDI_MESSAGE_NOTE_OFF else MIDI_MESSAGE_NOTE_ON\<rparr>),
            (if v2 = 0 then MIDI_MESSAGE_NOTE_OFF else MIDI_MESSAGE_NOTE_ON,
             m\<lparr>msg_channel := ucast (s AND MIDI_CHANNEL_MASK), note_number := n2, velocity := v2,
               msg_message_type := if v2 = 0 then MIDI_MESSAGE_NOTE_OFF else MIDI_MESSAGE_NOTE_ON\<rparr>)],
           p\<lparr>message_type := MIDI_MESSAGE_NOTE_ON, channel := ucast (s AND MIDI_CHANNEL_MASK),
             buffer_0 := n2, buffer_1 := v2, byte_count := 0\<rparr>,
           m\<lparr>msg_channel := ucast (s AND MIDI_CHANNEL_MASK), note_number := n2, velocity := v2,
               msg_message_type := if v2 = 0 then MIDI_MESSAGE_NOTE_OFF else MIDI_MESSAGE_NOTE_ON\<rparr>)"
  using assms
  by (simp add: parse_voice_status[where k="0x90"] data_step parse_data_byte_def buffer_store_def
      data_byte_not_greater buffer_guard Let_def)

lemma data_byte_keeps_running_status:
  assumes "channel_voice (message_type p)" and "d \<le> MIDI_MAX_DATA_BYTE"
  shows "\<exists>kind p' m'. midi_parse_byte p d m = Some (kind, p', m')
           \<and> message_type p' = message_type p \<and> channel p' = channel p"
proof -
  obtain kind p' m' where step: "parse_data_byte p d m = Some (kind, p', m')"
    using parse_data_byte_total[of p d m] by auto
  from step assms(1) have "message_type p' = message_type p \<and> channel p' = channel p"
    by (rule parse_data_byte_keeps_running_status)
  with step assms(2) show ?thesis by (simp add: data_step)
qed

section \<open>Bytes that are ignored\<close>

lemma parse_undefined_status:
  "undefined_status b \<Longrightarrow> midi_parse_byte p b m = Some (MIDI_MESSAGE_NONE, p, m)"
  by (auto simp: undefined_status_def midi_parse_byte_def parse_status_byte_def)

lemma overflow_guard:
  "d \<le> MIDI_MAX_DATA_BYTE \<Longrightarrow> MIDI_BUFFER_SIZE \<le> byte_count q \<Longrightarrow>
   midi_parse_byte q d n = Some (MIDI_MESSAGE_NONE, q\<lparr>byte_count := 0\<rparr>, n)"
  by (simp add: data_step parse_data_byte_def data_byte_not_greater)

section \<open>The claims on streams and on all states\<close>

text \<open>
  Claim C2. For every parser and every System Real-Time byte (0xF8, 0xFA, 0xFB, 0xFC,
  0xFE, 0xFF) the call returns the message type of that byte and writes it into the
  message, with the channel \<^verbatim>\<open>MIDI_CHANNEL_NONE\<close>; the parser after the call is the
  parser before it, field by field. So a message resumes where it was: a Note On
  status byte, the note, the real-time byte and the velocity give, after the
  real-time message, the very result and the very parser that the three bytes
  without the interruption give.
\<close>

theorem realtime_is_transparent:
  assumes "system_realtime b"
  shows "midi_parse_byte p b m =
           Some (ucast b, p, m\<lparr>msg_message_type := ucast b, msg_channel := MIDI_CHANNEL_NONE\<rparr>)
    \<and> (s AND MIDI_MSN_MASK = 0x90 \<and> n \<le> MIDI_MAX_DATA_BYTE \<and> v \<le> MIDI_MAX_DATA_BYTE \<longrightarrow>
        (\<exists>kind q' m'.
           midi_parse_bytes q m [s, n, b, v] =
             Some ([(MIDI_MESSAGE_NONE, m), (MIDI_MESSAGE_NONE, m),
                    (ucast b, m\<lparr>msg_message_type := ucast b, msg_channel := MIDI_CHANNEL_NONE\<rparr>),
                    (kind, m')], q', m')
           \<and> midi_parse_bytes q m [s, n, v] =
             Some ([(MIDI_MESSAGE_NONE, m), (MIDI_MESSAGE_NONE, m), (kind, m')], q', m')
           \<and> kind = (if v = 0 then MIDI_MESSAGE_NOTE_OFF else MIDI_MESSAGE_NOTE_ON)
           \<and> msg_message_type m' = kind
           \<and> msg_channel m' = ucast (s AND MIDI_CHANNEL_MASK)
           \<and> note_number m' = n \<and> velocity m' = v))"
  using assms
  by (simp add: parse_realtime note_on_run note_on_run_interrupted del: midi_parse_bytes.simps)

theorem realtime_is_transparent_witness:
  "system_realtime 0xF8
   \<and> midi_parse_byte (awaiting_second_byte MIDI_MESSAGE_NOTE_ON 0 60) 0xF8 zero_message =
       Some (MIDI_MESSAGE_TIMING_CLOCK, awaiting_second_byte MIDI_MESSAGE_NOTE_ON 0 60,
             zero_message\<lparr>msg_message_type := MIDI_MESSAGE_TIMING_CLOCK,
                           msg_channel := MIDI_CHANNEL_NONE\<rparr>)
   \<and> (0x90 :: uint8_t) AND MIDI_MSN_MASK = 0x90
   \<and> (60 :: uint8_t) \<le> MIDI_MAX_DATA_BYTE \<and> (100 :: uint8_t) \<le> MIDI_MAX_DATA_BYTE
   \<and> (\<exists>q' m'.
         midi_parse_bytes (midi_parser_init static_parser) zero_message [0x90, 60, 0xF8, 100] =
           Some ([(MIDI_MESSAGE_NONE, zero_message), (MIDI_MESSAGE_NONE, zero_message),
                  (MIDI_MESSAGE_TIMING_CLOCK,
                   zero_message\<lparr>msg_message_type := MIDI_MESSAGE_TIMING_CLOCK,
                                 msg_channel := MIDI_CHANNEL_NONE\<rparr>),
                  (MIDI_MESSAGE_NOTE_ON, m')], q', m')
         \<and> midi_parse_bytes (midi_parser_init static_parser) zero_message [0x90, 60, 100] =
           Some ([(MIDI_MESSAGE_NONE, zero_message), (MIDI_MESSAGE_NONE, zero_message),
                  (MIDI_MESSAGE_NOTE_ON, m')], q', m')
         \<and> msg_message_type m' = MIDI_MESSAGE_NOTE_ON \<and> msg_channel m' = 0
         \<and> note_number m' = 60 \<and> velocity m' = 100)"
  using realtime_is_transparent
    [of "0xF8" "awaiting_second_byte MIDI_MESSAGE_NOTE_ON 0 60" zero_message "0x90" 60 100
        "midi_parser_init static_parser"]
  by (simp add: system_realtime_def)

text \<open>
  Claim C4. Running status. With a channel voice message type pending (Note Off,
  Note On, Poly Key Pressure, Control Change, Program Change, Channel Pressure,
  Pitch Bend) a data byte, also one that completes a message, leaves the pending
  message type and the channel of the parser as they are. So after a Note On status
  byte and a completed pair of note and velocity, a second pair with no status byte
  completes another message of the Note On status on the same channel (reported,
  like the first, as Note Off when its velocity is 0); and after a Program Change
  or Channel Pressure status byte every single data byte completes a message of
  that type on the same channel.
\<close>

theorem running_status_persists:
  "(channel_voice (message_type p) \<and> d \<le> MIDI_MAX_DATA_BYTE \<longrightarrow>
      (\<exists>kind p' m'. midi_parse_byte p d m = Some (kind, p', m')
         \<and> message_type p' = message_type p \<and> channel p' = channel p))
   \<and> (s AND MIDI_MSN_MASK = 0x90
        \<and> n1 \<le> MIDI_MAX_DATA_BYTE \<and> v1 \<le> MIDI_MAX_DATA_BYTE
        \<and> n2 \<le> MIDI_MAX_DATA_BYTE \<and> v2 \<le> MIDI_MAX_DATA_BYTE \<longrightarrow>
      (\<exists>k1 m1 k2 m2 q'.
         midi_parse_bytes q m [s, n1, v1, n2, v2] =
           Some ([(MIDI_MESSAGE_NONE, m), (MIDI_MESSAGE_NONE, m), (k1, m1),
                  (MIDI_MESSAGE_NONE, m1), (k2, m2)], q', m2)
         \<and> k1 = (if v1 = 0 then MIDI_MESSAGE_NOTE_OFF else MIDI_MESSAGE_NOTE_ON)
         \<and> msg_channel m1 = ucast (s AND MIDI_CHANNEL_MASK)
         \<and> note_number m1 = n1 \<and> velocity m1 = v1
         \<and> k2 = (if v2 = 0 then MIDI_MESSAGE_NOTE_OFF else MIDI_MESSAGE_NOTE_ON)
         \<and> msg_message_type m2 = k2
         \<and> msg_channel m2 = ucast (s AND MIDI_CHANNEL_MASK)
         \<and> note_number m2 = n2 \<and> velocity m2 = v2
         \<and> message_type q' = MIDI_MESSAGE_NOTE_ON
         \<and> channel q' = ucast (s AND MIDI_CHANNEL_MASK)))
   \<and> ((t AND MIDI_MSN_MASK = 0xC0 \<or> t AND MIDI_MSN_MASK = 0xD0)
        \<and> d1 \<le> MIDI_MAX_DATA_BYTE \<and> d2 \<le> MIDI_MAX_DATA_BYTE \<longrightarrow>
      (\<exists>m1 m2 q'.
         midi_parse_bytes q m [t, d1, d2] =
           Some ([(MIDI_MESSAGE_NONE, m), (ucast (t AND MIDI_MSN_MASK), m1),
                  (ucast (t AND MIDI_MSN_MASK), m2)], q', m2)
         \<and> msg_message_type m1 = ucast (t AND MIDI_MSN_MASK)
         \<and> msg_message_type m2 = ucast (t AND MIDI_MSN_MASK)
         \<and> msg_channel m1 = ucast (t AND MIDI_CHANNEL_MASK)
         \<and> msg_channel m2 = ucast (t AND MIDI_CHANNEL_MASK)
         \<and> (t AND MIDI_MSN_MASK = 0xC0 \<longrightarrow> program m1 = d1 \<and> program m2 = d2)
         \<and> (t AND MIDI_MSN_MASK = 0xD0 \<longrightarrow> channel_pressure m1 = d1 \<and> channel_pressure m2 = d2)
         \<and> message_type q' = ucast (t AND MIDI_MSN_MASK)
         \<and> channel q' = ucast (t AND MIDI_CHANNEL_MASK)))"
proof (intro conjI impI)
  assume "channel_voice (message_type p) \<and> d \<le> MIDI_MAX_DATA_BYTE"
  then have "channel_voice (message_type p)" and "d \<le> MIDI_MAX_DATA_BYTE"
    by simp_all
  then show "\<exists>kind p' m'. midi_parse_byte p d m = Some (kind, p', m')
         \<and> message_type p' = message_type p \<and> channel p' = channel p"
    by (rule data_byte_keeps_running_status)
next
  assume "s AND MIDI_MSN_MASK = 0x90
        \<and> n1 \<le> MIDI_MAX_DATA_BYTE \<and> v1 \<le> MIDI_MAX_DATA_BYTE
        \<and> n2 \<le> MIDI_MAX_DATA_BYTE \<and> v2 \<le> MIDI_MAX_DATA_BYTE"
  then show "\<exists>k1 m1 k2 m2 q'.
         midi_parse_bytes q m [s, n1, v1, n2, v2] =
           Some ([(MIDI_MESSAGE_NONE, m), (MIDI_MESSAGE_NONE, m), (k1, m1),
                  (MIDI_MESSAGE_NONE, m1), (k2, m2)], q', m2)
         \<and> k1 = (if v1 = 0 then MIDI_MESSAGE_NOTE_OFF else MIDI_MESSAGE_NOTE_ON)
         \<and> msg_channel m1 = ucast (s AND MIDI_CHANNEL_MASK)
         \<and> note_number m1 = n1 \<and> velocity m1 = v1
         \<and> k2 = (if v2 = 0 then MIDI_MESSAGE_NOTE_OFF else MIDI_MESSAGE_NOTE_ON)
         \<and> msg_message_type m2 = k2
         \<and> msg_channel m2 = ucast (s AND MIDI_CHANNEL_MASK)
         \<and> note_number m2 = n2 \<and> velocity m2 = v2
         \<and> message_type q' = MIDI_MESSAGE_NOTE_ON
         \<and> channel q' = ucast (s AND MIDI_CHANNEL_MASK)"
    by (simp add: note_on_run_twice del: midi_parse_bytes.simps)
next
  assume h: "(t AND MIDI_MSN_MASK = 0xC0 \<or> t AND MIDI_MSN_MASK = 0xD0)
        \<and> d1 \<le> MIDI_MAX_DATA_BYTE \<and> d2 \<le> MIDI_MAX_DATA_BYTE"
  then show "\<exists>m1 m2 q'.
         midi_parse_bytes q m [t, d1, d2] =
           Some ([(MIDI_MESSAGE_NONE, m), (ucast (t AND MIDI_MSN_MASK), m1),
                  (ucast (t AND MIDI_MSN_MASK), m2)], q', m2)
         \<and> msg_message_type m1 = ucast (t AND MIDI_MSN_MASK)
         \<and> msg_message_type m2 = ucast (t AND MIDI_MSN_MASK)
         \<and> msg_channel m1 = ucast (t AND MIDI_CHANNEL_MASK)
         \<and> msg_channel m2 = ucast (t AND MIDI_CHANNEL_MASK)
         \<and> (t AND MIDI_MSN_MASK = 0xC0 \<longrightarrow> program m1 = d1 \<and> program m2 = d2)
         \<and> (t AND MIDI_MSN_MASK = 0xD0 \<longrightarrow> channel_pressure m1 = d1 \<and> channel_pressure m2 = d2)
         \<and> message_type q' = ucast (t AND MIDI_MSN_MASK)
         \<and> channel q' = ucast (t AND MIDI_CHANNEL_MASK)"
    using one_byte_run[of t "t AND MIDI_MSN_MASK" d1 d2 q m]
    by (auto simp del: midi_parse_bytes.simps)
qed

theorem running_status_persists_witness:
  "channel_voice (message_type (awaiting_second_byte MIDI_MESSAGE_PITCH_BEND 4 0))
   \<and> (127 :: uint8_t) \<le> MIDI_MAX_DATA_BYTE
   \<and> (\<exists>kind p' m'.
        midi_parse_byte (awaiting_second_byte MIDI_MESSAGE_PITCH_BEND 4 0) 127 zero_message
          = Some (kind, p', m')
        \<and> message_type p' = MIDI_MESSAGE_PITCH_BEND \<and> channel p' = 4)
   \<and> (0x95 :: uint8_t) AND MIDI_MSN_MASK = 0x90
   \<and> (60 :: uint8_t) \<le> MIDI_MAX_DATA_BYTE \<and> (100 :: uint8_t) \<le> MIDI_MAX_DATA_BYTE
   \<and> (64 :: uint8_t) \<le> MIDI_MAX_DATA_BYTE \<and> (90 :: uint8_t) \<le> MIDI_MAX_DATA_BYTE
   \<and> (\<exists>m1 m2 q'.
         midi_parse_bytes (midi_parser_init static_parser) zero_message [0x95, 60, 100, 64, 90] =
           Some ([(MIDI_MESSAGE_NONE, zero_message), (MIDI_MESSAGE_NONE, zero_message),
                  (MIDI_MESSAGE_NOTE_ON, m1), (MIDI_MESSAGE_NONE, m1),
                  (MIDI_MESSAGE_NOTE_ON, m2)], q', m2)
         \<and> msg_channel m1 = 5 \<and> note_number m1 = 60 \<and> velocity m1 = 100
         \<and> msg_message_type m2 = MIDI_MESSAGE_NOTE_ON
         \<and> msg_channel m2 = 5 \<and> note_number m2 = 64 \<and> velocity m2 = 90
         \<and> message_type q' = MIDI_MESSAGE_NOTE_ON \<and> channel q' = 5)
   \<and> (0xC7 :: uint8_t) AND MIDI_MSN_MASK = 0xC0
   \<and> (10 :: uint8_t) \<le> MIDI_MAX_DATA_BYTE \<and> (11 :: uint8_t) \<le> MIDI_MAX_DATA_BYTE
   \<and> (\<exists>m1 m2 q'.
         midi_parse_bytes (midi_parser_init static_parser) zero_message [0xC7, 10, 11] =
           Some ([(MIDI_MESSAGE_NONE, zero_message), (MIDI_MESSAGE_PROGRAM_CHANGE, m1),
                  (MIDI_MESSAGE_PROGRAM_CHANGE, m2)], q', m2)
         \<and> msg_message_type m1 = MIDI_MESSAGE_PROGRAM_CHANGE
         \<and> msg_message_type m2 = MIDI_MESSAGE_PROGRAM_CHANGE
         \<and> msg_channel m1 = 7 \<and> msg_channel m2 = 7
         \<and> program m1 = 10 \<and> program m2 = 11
         \<and> message_type q' = MIDI_MESSAGE_PROGRAM_CHANGE \<and> channel q' = 7)"
  using running_status_persists
    [of "awaiting_second_byte MIDI_MESSAGE_PITCH_BEND 4 0" 127 zero_message
        "0x95" 60 100 64 90 "midi_parser_init static_parser" "0xC7" 10 11]
  by (simp add: channel_voice_def awaiting_second_byte_def del: midi_parse_bytes.simps)

text \<open>
  Claim C5. For every parser the byte 0xF6 (Tune Request) or 0xF7 (End of Exclusive)
  completes a message of that type at once, with the channel \<^verbatim>\<open>MIDI_CHANNEL_NONE\<close>
  in the message, and clears running status: the pending message type is
  \<^verbatim>\<open>MIDI_MESSAGE_NONE\<close> and the count 0 afterwards, so that a data byte that
  follows is ignored, with no message and the parser and the message as they were.
  No other status byte does both: whenever a message type is pending, a status byte
  returns a message and leaves no message type pending exactly if it is 0xF6 or 0xF7.
\<close>

theorem tune_request_and_end_of_exclusive:
  "(b = 0xF6 \<or> b = 0xF7 \<longrightarrow>
      (\<exists>kind p' m'. midi_parse_byte p b m = Some (kind, p', m')
         \<and> kind = (if b = 0xF6 then MIDI_MESSAGE_TUNE_REQUEST else MIDI_MESSAGE_END_OF_EXCLUSIVE)
         \<and> msg_message_type m' = kind \<and> msg_channel m' = MIDI_CHANNEL_NONE
         \<and> message_type p' = MIDI_MESSAGE_NONE \<and> byte_count p' = 0
         \<and> (d \<le> MIDI_MAX_DATA_BYTE \<longrightarrow>
              midi_parse_byte p' d m' = Some (MIDI_MESSAGE_NONE, p', m'))))
   \<and> (s AND MIDI_MSB_MASK \<noteq> 0 \<and> message_type q \<noteq> MIDI_MESSAGE_NONE \<longrightarrow>
        (\<exists>kind q' n'. midi_parse_byte q s n = Some (kind, q', n')
           \<and> (kind \<noteq> MIDI_MESSAGE_NONE \<and> message_type q' = MIDI_MESSAGE_NONE
                \<longleftrightarrow> s = 0xF6 \<or> s = 0xF7)))"
proof (intro conjI impI)
  assume b: "b = 0xF6 \<or> b = 0xF7"
  let ?p = "p\<lparr>message_type := MIDI_MESSAGE_NONE, channel := MIDI_CHANNEL_NONE, byte_count := 0\<rparr>"
  let ?m = "m\<lparr>msg_message_type := ucast b, msg_channel := MIDI_CHANNEL_NONE\<rparr>"
  have step: "midi_parse_byte p b m = Some (ucast b, ?p, ?m)"
    using b by (rule parse_tune_request_eox)
  have kind: "(ucast b :: midi_message_type_t) =
      (if b = 0xF6 then MIDI_MESSAGE_TUNE_REQUEST else MIDI_MESSAGE_END_OF_EXCLUSIVE)"
    using b by auto
  have next_byte: "d \<le> MIDI_MAX_DATA_BYTE \<longrightarrow> midi_parse_byte ?p d ?m = Some (MIDI_MESSAGE_NONE, ?p, ?m)"
    by (simp add: data_byte_without_pending data_bytes_required_def buffer_guard)
  show "\<exists>kind p' m'. midi_parse_byte p b m = Some (kind, p', m')
         \<and> kind = (if b = 0xF6 then MIDI_MESSAGE_TUNE_REQUEST else MIDI_MESSAGE_END_OF_EXCLUSIVE)
         \<and> msg_message_type m' = kind \<and> msg_channel m' = MIDI_CHANNEL_NONE
         \<and> message_type p' = MIDI_MESSAGE_NONE \<and> byte_count p' = 0
         \<and> (d \<le> MIDI_MAX_DATA_BYTE \<longrightarrow>
              midi_parse_byte p' d m' = Some (MIDI_MESSAGE_NONE, p', m'))"
    using step kind next_byte by (intro exI[of _ "ucast b"] exI[of _ ?p] exI[of _ ?m]) simp
next
  assume h: "s AND MIDI_MSB_MASK \<noteq> 0 \<and> message_type q \<noteq> MIDI_MESSAGE_NONE"
  obtain kind q' n' where step: "midi_parse_byte q s n = Some (kind, q', n')"
    using midi_parse_byte_total[of q s n] by auto
  from h have "s AND MIDI_MSB_MASK \<noteq> 0" and "message_type q \<noteq> MIDI_MESSAGE_NONE"
    by simp_all
  then have "kind \<noteq> MIDI_MESSAGE_NONE \<and> message_type q' = MIDI_MESSAGE_NONE
                \<longleftrightarrow> s = 0xF6 \<or> s = 0xF7"
    using step by (rule status_clears_and_completes)
  with step show "\<exists>kind q' n'. midi_parse_byte q s n = Some (kind, q', n')
           \<and> (kind \<noteq> MIDI_MESSAGE_NONE \<and> message_type q' = MIDI_MESSAGE_NONE
                \<longleftrightarrow> s = 0xF6 \<or> s = 0xF7)"
    by blast
qed

theorem tune_request_and_end_of_exclusive_witness:
  "((0xF7 :: uint8_t) = 0xF6 \<or> (0xF7 :: uint8_t) = 0xF7)
   \<and> (\<exists>p' m'. midi_parse_byte (awaiting_first_byte MIDI_MESSAGE_SYSTEM_EXCLUSIVE MIDI_CHANNEL_NONE)
               0xF7 zero_message = Some (MIDI_MESSAGE_END_OF_EXCLUSIVE, p', m')
         \<and> msg_message_type m' = MIDI_MESSAGE_END_OF_EXCLUSIVE \<and> msg_channel m' = MIDI_CHANNEL_NONE
         \<and> message_type p' = MIDI_MESSAGE_NONE \<and> byte_count p' = 0
         \<and> (5 :: uint8_t) \<le> MIDI_MAX_DATA_BYTE
         \<and> midi_parse_byte p' 5 m' = Some (MIDI_MESSAGE_NONE, p', m'))
   \<and> (0xF8 :: uint8_t) AND MIDI_MSB_MASK \<noteq> 0
   \<and> message_type (awaiting_second_byte MIDI_MESSAGE_NOTE_ON 0 60) \<noteq> MIDI_MESSAGE_NONE
   \<and> (\<exists>kind q' n'. midi_parse_byte (awaiting_second_byte MIDI_MESSAGE_NOTE_ON 0 60) 0xF8 zero_message
               = Some (kind, q', n')
         \<and> \<not> (kind \<noteq> MIDI_MESSAGE_NONE \<and> message_type q' = MIDI_MESSAGE_NONE))"
  using tune_request_and_end_of_exclusive
    [of "0xF7" "awaiting_first_byte MIDI_MESSAGE_SYSTEM_EXCLUSIVE MIDI_CHANNEL_NONE" zero_message 5
        "0xF8" "awaiting_second_byte MIDI_MESSAGE_NOTE_ON 0 60" zero_message]
  by (simp add: awaiting_first_byte_def awaiting_second_byte_def)

text \<open>
  Claim C7. In every parser state that a sequence of calls of \<^verbatim>\<open>midi_parse_byte\<close>
  reaches from the initialised state, \<open>byte_count\<close> is at most the number of data
  bytes that the pending message type requires, and it is 0 or 1; every such sequence
  of calls has a result. For every parser state at all, reachable or not: if
  \<open>byte_count\<close> is 2 or more when a data byte arrives, the call sets the count to
  0, leaves everything else, the buffer too, as it was and returns
  \<^verbatim>\<open>MIDI_MESSAGE_NONE\<close>; and every call has a result, which in this model says
  that no call writes outside the two-byte buffer.
\<close>

theorem byte_count_stays_in_range:
  "(midi_parse_bytes (midi_parser_init p0) m0 bs = Some (rs, p, m) \<longrightarrow>
      unat (byte_count p) \<le> data_bytes_required (message_type p)
      \<and> (byte_count p = 0 \<or> byte_count p = 1))
   \<and> (\<exists>r. midi_parse_bytes (midi_parser_init p0) m0 bs = Some r)
   \<and> (d \<le> MIDI_MAX_DATA_BYTE \<and> MIDI_BUFFER_SIZE \<le> byte_count q \<longrightarrow>
        midi_parse_byte q d n = Some (MIDI_MESSAGE_NONE, q\<lparr>byte_count := 0\<rparr>, n))
   \<and> (\<exists>r. midi_parse_byte q b n = Some r)"
proof (intro conjI impI)
  assume "midi_parse_bytes (midi_parser_init p0) m0 bs = Some (rs, p, m)"
  with init_count_invariant have "count_invariant p" by (rule run_count_invariant)
  then show "unat (byte_count p) \<le> data_bytes_required (message_type p)"
    and "byte_count p = 0 \<or> byte_count p = 1"
    by (simp_all add: count_invariant_bound)
next
  show "\<exists>r. midi_parse_bytes (midi_parser_init p0) m0 bs = Some r"
    by (rule midi_parse_bytes_total)
next
  assume "d \<le> MIDI_MAX_DATA_BYTE \<and> MIDI_BUFFER_SIZE \<le> byte_count q"
  then show "midi_parse_byte q d n = Some (MIDI_MESSAGE_NONE, q\<lparr>byte_count := 0\<rparr>, n)"
    by (simp add: overflow_guard)
next
  show "\<exists>r. midi_parse_byte q b n = Some r" by (rule midi_parse_byte_total)
qed

theorem byte_count_stays_in_range_witness:
  "midi_parse_bytes (midi_parser_init static_parser) zero_message [0x90, 60] =
      Some ([(MIDI_MESSAGE_NONE, zero_message), (MIDI_MESSAGE_NONE, zero_message)],
            awaiting_second_byte MIDI_MESSAGE_NOTE_ON 0 60, zero_message)
   \<and> unat (byte_count (awaiting_second_byte MIDI_MESSAGE_NOTE_ON 0 60))
        \<le> data_bytes_required (message_type (awaiting_second_byte MIDI_MESSAGE_NOTE_ON 0 60))
   \<and> byte_count (awaiting_second_byte MIDI_MESSAGE_NOTE_ON 0 60) = 1
   \<and> (7 :: uint8_t) \<le> MIDI_MAX_DATA_BYTE
   \<and> MIDI_BUFFER_SIZE \<le> byte_count (static_parser\<lparr>byte_count := 2\<rparr>)
   \<and> midi_parse_byte (static_parser\<lparr>byte_count := 2\<rparr>) 7 zero_message =
        Some (MIDI_MESSAGE_NONE, static_parser, zero_message)"
proof -
  have run: "midi_parse_bytes (midi_parser_init static_parser) zero_message [0x90, 60] =
      Some ([(MIDI_MESSAGE_NONE, zero_message), (MIDI_MESSAGE_NONE, zero_message)],
            awaiting_second_byte MIDI_MESSAGE_NOTE_ON 0 60, zero_message)"
    by (simp add: midi_parse_byte_def parse_status_byte_def parse_data_byte_def buffer_store_def
        midi_parser_init_def static_parser_def awaiting_second_byte_def buffer_guard)
  have guard: "(7 :: uint8_t) \<le> MIDI_MAX_DATA_BYTE
     \<and> MIDI_BUFFER_SIZE \<le> byte_count (static_parser\<lparr>byte_count := 2\<rparr>)"
    by simp
  from run guard
    byte_count_stays_in_range
      [of static_parser zero_message "[0x90, 60]"
          "[(MIDI_MESSAGE_NONE, zero_message), (MIDI_MESSAGE_NONE, zero_message)]"
          "awaiting_second_byte MIDI_MESSAGE_NOTE_ON 0 60" zero_message
          7 "static_parser\<lparr>byte_count := 2\<rparr>" zero_message 0]
  show ?thesis by (simp add: awaiting_second_byte_def static_parser_def)
qed

text \<open>
  Claim C8. For every parser an undefined status byte (0xF4, 0xF5, 0xF9, 0xFD)
  returns \<^verbatim>\<open>MIDI_MESSAGE_NONE\<close> and leaves the parser and the message as they were.
  So does a data byte that finds no message type pending, or one that takes no data
  bytes (System Exclusive among them): it returns \<^verbatim>\<open>MIDI_MESSAGE_NONE\<close> and changes
  nothing, in every state that calls of \<^verbatim>\<open>midi_parse_byte\<close> reach from the
  initialised state and in every state whose count is inside the buffer. In a state
  whose count is 2 or more, which no sequence of calls reaches, the guard of claim C7
  sets the count to 0 and nothing else changes, so that the parser can go on. A
  byte above 127 that reaches \<^verbatim>\<open>parse_data_byte\<close> is ignored in the same way.
\<close>

theorem unusable_bytes_are_ignored:
  "(undefined_status b \<longrightarrow> midi_parse_byte p b m = Some (MIDI_MESSAGE_NONE, p, m))
   \<and> (d \<le> MIDI_MAX_DATA_BYTE \<and> data_bytes_required (message_type p) = 0 \<longrightarrow>
        midi_parse_byte p d m =
          Some (MIDI_MESSAGE_NONE,
                if MIDI_BUFFER_SIZE \<le> byte_count p then p\<lparr>byte_count := 0\<rparr> else p, m))
   \<and> (midi_parse_bytes (midi_parser_init q0) m0 bs = Some (rs, q, n)
        \<and> d \<le> MIDI_MAX_DATA_BYTE \<and> data_bytes_required (message_type q) = 0 \<longrightarrow>
        midi_parse_byte q d n = Some (MIDI_MESSAGE_NONE, q, n))
   \<and> (MIDI_MAX_DATA_BYTE < e \<longrightarrow> parse_data_byte p e m = Some (MIDI_MESSAGE_NONE, p, m))"
proof (intro conjI impI)
  assume "undefined_status b"
  then show "midi_parse_byte p b m = Some (MIDI_MESSAGE_NONE, p, m)"
    by (rule parse_undefined_status)
next
  assume "d \<le> MIDI_MAX_DATA_BYTE \<and> data_bytes_required (message_type p) = 0"
  then show "midi_parse_byte p d m =
          Some (MIDI_MESSAGE_NONE,
                if MIDI_BUFFER_SIZE \<le> byte_count p then p\<lparr>byte_count := 0\<rparr> else p, m)"
    by (simp add: data_byte_without_pending)
next
  assume h: "midi_parse_bytes (midi_parser_init q0) m0 bs = Some (rs, q, n)
        \<and> d \<le> MIDI_MAX_DATA_BYTE \<and> data_bytes_required (message_type q) = 0"
  then have "midi_parse_bytes (midi_parser_init q0) m0 bs = Some (rs, q, n)" by simp
  with init_count_invariant have "count_invariant q" by (rule run_count_invariant)
  then have "\<not> MIDI_BUFFER_SIZE \<le> byte_count q"
    by (auto simp: count_invariant_def buffer_guard)
  with h show "midi_parse_byte q d n = Some (MIDI_MESSAGE_NONE, q, n)"
    by (simp add: data_byte_without_pending)
next
  assume "MIDI_MAX_DATA_BYTE < e"
  then show "parse_data_byte p e m = Some (MIDI_MESSAGE_NONE, p, m)"
    by (simp add: parse_data_byte_def)
qed

theorem unusable_bytes_are_ignored_witness:
  "undefined_status 0xF4
   \<and> midi_parse_byte (awaiting_second_byte MIDI_MESSAGE_NOTE_ON 0 60) 0xF4 zero_message =
       Some (MIDI_MESSAGE_NONE, awaiting_second_byte MIDI_MESSAGE_NOTE_ON 0 60, zero_message)
   \<and> (33 :: uint8_t) \<le> MIDI_MAX_DATA_BYTE
   \<and> data_bytes_required
        (message_type (awaiting_first_byte MIDI_MESSAGE_SYSTEM_EXCLUSIVE MIDI_CHANNEL_NONE)) = 0
   \<and> midi_parse_byte (awaiting_first_byte MIDI_MESSAGE_SYSTEM_EXCLUSIVE MIDI_CHANNEL_NONE) 33
         zero_message =
       Some (MIDI_MESSAGE_NONE, awaiting_first_byte MIDI_MESSAGE_SYSTEM_EXCLUSIVE MIDI_CHANNEL_NONE,
             zero_message)
   \<and> midi_parse_bytes (midi_parser_init static_parser) zero_message [] =
       Some ([], midi_parser_init static_parser, zero_message)
   \<and> data_bytes_required (message_type (midi_parser_init static_parser)) = 0
   \<and> midi_parse_byte (midi_parser_init static_parser) 33 zero_message =
       Some (MIDI_MESSAGE_NONE, midi_parser_init static_parser, zero_message)
   \<and> MIDI_MAX_DATA_BYTE < (0x80 :: uint8_t)
   \<and> parse_data_byte (awaiting_second_byte MIDI_MESSAGE_NOTE_ON 0 60) 0x80 zero_message =
       Some (MIDI_MESSAGE_NONE, awaiting_second_byte MIDI_MESSAGE_NOTE_ON 0 60, zero_message)"
proof -
  have hyps: "undefined_status 0xF4" "(33 :: uint8_t) \<le> MIDI_MAX_DATA_BYTE"
    "data_bytes_required
        (message_type (awaiting_first_byte MIDI_MESSAGE_SYSTEM_EXCLUSIVE MIDI_CHANNEL_NONE)) = 0"
    "midi_parse_bytes (midi_parser_init static_parser) zero_message [] =
       Some ([], midi_parser_init static_parser, zero_message)"
    "data_bytes_required (message_type (midi_parser_init static_parser)) = 0"
    "MIDI_MAX_DATA_BYTE < (0x80 :: uint8_t)"
    by (simp_all add: undefined_status_def data_bytes_required_def awaiting_first_byte_def
        midi_parser_init_def word_less_nat_alt)
  have guard: "\<not> MIDI_BUFFER_SIZE \<le>
      byte_count (awaiting_first_byte MIDI_MESSAGE_SYSTEM_EXCLUSIVE MIDI_CHANNEL_NONE)"
    by (simp add: awaiting_first_byte_def buffer_guard)
  from hyps guard
    unusable_bytes_are_ignored
      [of "0xF4" "awaiting_second_byte MIDI_MESSAGE_NOTE_ON 0 60" zero_message 33
          static_parser zero_message "[]" "[]" "midi_parser_init static_parser" zero_message "0x80"]
    unusable_bytes_are_ignored
      [of "0xF4" "awaiting_first_byte MIDI_MESSAGE_SYSTEM_EXCLUSIVE MIDI_CHANNEL_NONE" zero_message 33
          static_parser zero_message "[]" "[]" "midi_parser_init static_parser" zero_message "0x80"]
  show ?thesis by simp
qed

text \<open>
  Claim C9. \<^verbatim>\<open>midi_parser_reset\<close> gives, from any parser state, the state that
  \<^verbatim>\<open>midi_parser_init\<close> gives: no message type pending, no channel, no active
  channel, the buffer cleared and the count 0. So every byte stream fed to a parser
  that has just been reset, whatever it had seen before, gives the same returned
  message types, the same messages and the same final parser as the stream fed to a
  freshly initialised parser.
\<close>

theorem reset_is_init:
  "midi_parser_reset p = midi_parser_init q
   \<and> midi_parser_reset p =
       \<lparr>message_type = MIDI_MESSAGE_NONE, channel = MIDI_CHANNEL_NONE,
        active_channel = MIDI_CHANNEL_NONE, buffer_0 = 0, buffer_1 = 0, byte_count = 0\<rparr>
   \<and> midi_parse_bytes (midi_parser_reset p) m bs = midi_parse_bytes (midi_parser_init q) m bs"
proof -
  have "midi_parser_init r =
       \<lparr>message_type = MIDI_MESSAGE_NONE, channel = MIDI_CHANNEL_NONE,
        active_channel = MIDI_CHANNEL_NONE, buffer_0 = 0, buffer_1 = 0, byte_count = 0\<rparr>" for r
    by (simp add: midi_parser_init_def)
  then show ?thesis by (simp add: midi_parser_reset_def)
qed

text \<open>
  Claim C10. The accessors are those modelled from the spec:
  \<^verbatim>\<open>midi_parser_get_active_channel\<close> after \<^verbatim>\<open>midi_parser_set_active_channel\<close>
  returns the channel stored. \<^verbatim>\<open>midi_parse_byte\<close> neither reads nor writes the
  slot: a parser with another value in \<open>active_channel\<close>, set through the accessor
  or in any other way, returns the same message type and the same message and makes
  the same updates to every other field, and the value of the slot after the call
  is its value before.
\<close>

theorem active_channel_is_pass_through:
  "midi_parser_get_active_channel (midi_parser_set_active_channel p ch) = ch
   \<and> midi_parse_byte (midi_parser_set_active_channel p ch) b m =
       map_option (\<lambda>(kind, p', m'). (kind, midi_parser_set_active_channel p' ch, m'))
         (midi_parse_byte p b m)
   \<and> midi_parse_byte (p\<lparr>active_channel := a\<rparr>) b m =
       map_option (\<lambda>(kind, p', m'). (kind, p'\<lparr>active_channel := a\<rparr>, m')) (midi_parse_byte p b m)
   \<and> (\<exists>kind p' m'. midi_parse_byte p b m = Some (kind, p', m')
         \<and> active_channel p' = active_channel p)"
proof (intro conjI)
  show "midi_parser_get_active_channel (midi_parser_set_active_channel p ch) = ch"
    by (simp add: midi_parser_get_active_channel_def midi_parser_set_active_channel_def)
  show "midi_parse_byte (midi_parser_set_active_channel p ch) b m =
       map_option (\<lambda>(kind, p', m'). (kind, midi_parser_set_active_channel p' ch, m'))
         (midi_parse_byte p b m)"
    by (simp add: midi_parser_set_active_channel_def midi_parse_byte_active_channel)
  show "midi_parse_byte (p\<lparr>active_channel := a\<rparr>) b m =
       map_option (\<lambda>(kind, p', m'). (kind, p'\<lparr>active_channel := a\<rparr>, m')) (midi_parse_byte p b m)"
    by (rule midi_parse_byte_active_channel)
  obtain kind p' m' where step: "midi_parse_byte p b m = Some (kind, p', m')"
    using midi_parse_byte_total[of p b m] by auto
  then have "active_channel p' = active_channel p"
    by (auto simp: midi_parse_byte_def split: if_splits
        dest: parse_status_byte_keeps_active_channel parse_data_byte_keeps_active_channel)
  with step show "\<exists>kind p' m'. midi_parse_byte p b m = Some (kind, p', m')
         \<and> active_channel p' = active_channel p"
    by blast
qed

end
